theory Spec2Isabelle
  imports Main "HOL-Library.Word"
begin

section \<open>Python values and the primitives the program uses\<close>

text \<open>
  The program is \<^verbatim>\<open>src/app.py\<close>: a sign-in client that exchanges a refresh token for
  an access token, signs in, redeems a gift code and pushes a report.

  A Python \<^verbatim>\<open>str\<close> is a \<open>string\<close>, one list element per character. The fixed Chinese
  messages of the program lie outside HOL's 8-bit \<open>char\<close>; they are named constants
  spelled in their UTF-8 bytes, and the program only concatenates them.

  Whatever \<^verbatim>\<open>Response.json()\<close> returns is a \<open>json\<close> value. A float is kept as its
  IEEE-754 bits, a dict as the list of its items in insertion order.
\<close>

datatype json =
    JNull
  | JBool bool
  | JInt int
  | JFloat "64 word"
  | JStr string
  | JArr "json list"
  | JObj "(string \<times> json) list"

text \<open>
  The exceptions the program can meet. \<^verbatim>\<open>requests.RequestException\<close> and its subclass
  \<^verbatim>\<open>requests.JSONDecodeError\<close> (raised by \<^verbatim>\<open>Response.json()\<close> on a body that is not
  JSON) carry their message; they are what \<^verbatim>\<open>except requests.RequestException\<close>
  catches.
\<close>

datatype request_exception = RequestException string | JSONDecodeError string

datatype exn = Request request_exception | KeyError json | TypeError | IndexError

fun str_exception :: "request_exception \<Rightarrow> string" where
  "str_exception (RequestException m) = m"
| "str_exception (JSONDecodeError m) = m"

text \<open>Sequencing of computations that may raise.\<close>

definition bindE :: "exn + 'a \<Rightarrow> ('a \<Rightarrow> exn + 'b) \<Rightarrow> exn + 'b" where
  "bindE m f = (case m of Inl e \<Rightarrow> Inl e | Inr v \<Rightarrow> f v)"

text \<open>Truth value testing (\<^verbatim>\<open>if x\<close>, \<^verbatim>\<open>not x\<close>, \<^verbatim>\<open>x or y\<close>).\<close>

fun py_truthy :: "json \<Rightarrow> bool" where
  "py_truthy JNull = False"
| "py_truthy (JBool b) = b"
| "py_truthy (JInt i) = (i \<noteq> 0)"
| "py_truthy (JFloat w) = (take_bit 63 w \<noteq> 0)"
| "py_truthy (JStr s) = (s \<noteq> [])"
| "py_truthy (JArr xs) = (xs \<noteq> [])"
| "py_truthy (JObj kvs) = (kvs \<noteq> [])"

text \<open>\<^verbatim>\<open>x[k]\<close> with a string key \<open>k\<close>.\<close>

fun getitem_str :: "json \<Rightarrow> string \<Rightarrow> exn + json" where
  "getitem_str (JObj kvs) k =
     (case map_of kvs k of None \<Rightarrow> Inl (KeyError (JStr k)) | Some v \<Rightarrow> Inr v)"
| "getitem_str _ k = Inl TypeError"

text \<open>
  \<^verbatim>\<open>x[i]\<close> with an integer \<open>i\<close>. On a sequence of \<open>len\<close> items the index \<open>i\<close> names
  position \<open>i\<close> when it is not negative and position \<open>len + i\<close> when it is; anything
  outside the sequence is an \<^verbatim>\<open>IndexError\<close>. The keys of a decoded JSON object are
  strings, so an integer is never one of them.
\<close>

definition py_index :: "nat \<Rightarrow> int \<Rightarrow> nat option" where
  "py_index len i =
     (if 0 \<le> i \<and> i < int len then Some (nat i)
      else if i < 0 \<and> - int len \<le> i then Some (nat (int len + i))
      else None)"

fun getitem_int :: "json \<Rightarrow> int \<Rightarrow> exn + json" where
  "getitem_int (JArr xs) i =
     (case py_index (length xs) i of None \<Rightarrow> Inl IndexError | Some j \<Rightarrow> Inr (xs ! j))"
| "getitem_int (JStr s) i =
     (case py_index (length s) i of None \<Rightarrow> Inl IndexError | Some j \<Rightarrow> Inr (JStr [s ! j]))"
| "getitem_int (JObj kvs) i = Inl (KeyError (JInt i))"
| "getitem_int _ i = Inl TypeError"

text \<open>\<^verbatim>\<open>k in x\<close> for a string \<open>k\<close>: a key of a dict, an element of a list, a substring.\<close>

fun is_substring :: "string \<Rightarrow> string \<Rightarrow> bool" where
  "is_substring k [] = (k = [])"
| "is_substring k (c # cs) = (take (length k) (c # cs) = k \<or> is_substring k cs)"

fun py_contains :: "string \<Rightarrow> json \<Rightarrow> exn + bool" where
  "py_contains k (JObj kvs) = Inr (k \<in> set (map fst kvs))"
| "py_contains k (JArr xs) = Inr (JStr k \<in> set xs)"
| "py_contains k (JStr s) = Inr (is_substring k s)"
| "py_contains k _ = Inl TypeError"

text \<open>The items a \<^verbatim>\<open>for\<close> loop over \<open>x\<close> visits.\<close>

fun py_iter :: "json \<Rightarrow> exn + json list" where
  "py_iter (JArr xs) = Inr xs"
| "py_iter (JObj kvs) = Inr (map (\<lambda>kv. JStr (fst kv)) kvs)"
| "py_iter (JStr s) = Inr (map (\<lambda>c. JStr [c]) s)"
| "py_iter _ = Inl TypeError"

text \<open>
  Slicing \<^verbatim>\<open>xs[lo:hi]\<close> with either bound optional: a negative bound counts from the
  end, every bound is clamped to the sequence, and slicing never raises.
\<close>

definition py_slice :: "'a list \<Rightarrow> int option \<Rightarrow> int option \<Rightarrow> 'a list" where
  "py_slice xs lo hi =
     (let n = int (length xs);
          clamp = (\<lambda>i. if i < 0 then max 0 (n + i) else min n i);
          a = (case lo of None \<Rightarrow> 0 | Some i \<Rightarrow> clamp i);
          b = (case hi of None \<Rightarrow> n | Some i \<Rightarrow> clamp i)
      in take (nat (b - a)) (drop (nat a) xs))"

text \<open>\<^verbatim>\<open>sep.join(xs)\<close> on a list of strings.\<close>

fun py_join :: "string \<Rightarrow> string list \<Rightarrow> string" where
  "py_join sep [] = []"
| "py_join sep [x] = x"
| "py_join sep (x # y # zs) = x @ sep @ py_join sep (y # zs)"

section \<open>SignIn: the masked refresh token\<close>

text \<open>
  \<^verbatim>\<open>SignIn.__hide_refresh_token\<close> (lines 48-57). The body of the \<^verbatim>\<open>try\<close> is three slices,
  a \<^verbatim>\<open>len\<close> and two concatenations; \<open>hide_attempt\<close> is that body, and
  \<open>hide_refresh_token\<close> adds the handler, which returns the token itself.
\<close>

definition hide_attempt :: "string \<Rightarrow> exn + string" where
  "hide_attempt tok =
     Inr (py_slice tok None (Some 4)
          @ replicate (length (py_slice tok (Some 4) (Some (- 4)))) (CHR ''*'')
          @ py_slice tok (Some (- 4)) None)"

definition hide_refresh_token :: "string \<Rightarrow> string" where
  "hide_refresh_token tok =
     (case hide_attempt tok of Inr masked \<Rightarrow> masked | Inl e \<Rightarrow> tok)"

section \<open>Rendering values as text\<close>

text \<open>
  The messages of the program, by the code points of their characters; \<open>utf8\<close> spells
  a code point in bytes.
\<close>

definition utf8_char :: "nat \<Rightarrow> string" where
  "utf8_char n =
     (if n < 0x80 then [char_of n]
      else if n < 0x800 then [char_of (0xC0 + n div 64), char_of (0x80 + n mod 64)]
      else if n < 0x10000 then
        [char_of (0xE0 + n div 4096), char_of (0x80 + n div 64 mod 64),
         char_of (0x80 + n mod 64)]
      else
        [char_of (0xF0 + n div 262144), char_of (0x80 + n div 4096 mod 64),
         char_of (0x80 + n div 64 mod 64), char_of (0x80 + n mod 64)])"

definition utf8 :: "nat list \<Rightarrow> string" where
  "utf8 cps = concat (map utf8_char cps)"

definition lit_missing_fields :: string where \<comment> \<open>line 99\<close>
  "lit_missing_fields =
     utf8 [0x83B7, 0x53D6] @ '' access token '' @ utf8 [0x5931, 0x8D25] @ '', '' @
     utf8 [0x53C2, 0x6570, 0x7F3A, 0x5931] @ '': ''"

definition lit_no_reward :: string where \<comment> \<open>line 139\<close>
  "lit_no_reward =
     utf8 [0x65E0, 0x5956, 0x52B1]"

definition lit_got :: string where \<comment> \<open>line 141\<close>
  "lit_got =
     utf8 [0x83B7, 0x5F97] @ '' ''"

definition lit_signed_ok :: string where \<comment> \<open>lines 158, 164\<close>
  "lit_signed_ok =
     '' '' @ utf8 [0x7B7E, 0x5230, 0x6210, 0x529F] @ '', '' @
     utf8 [0x672C, 0x6708, 0x7D2F, 0x8BA1, 0x7B7E, 0x5230] @ '' ''"

definition lit_days :: string where \<comment> \<open>lines 158, 164\<close>
  "lit_days =
     '' '' @ utf8 [0x5929] @ ''.'' @ [CHR 0x0A] @ utf8 [0x672C, 0x6B21, 0x7B7E, 0x5230]"

definition lit_signed_failed :: string where \<comment> \<open>lines 160, 167\<close>
  "lit_signed_failed =
     '' '' @ utf8 [0x7B7E, 0x5230, 0x5931, 0x8D25] @ [CHR 0x0A]"

definition lit_reward_request_error :: string where \<comment> \<open>line 309\<close>
  "lit_reward_request_error =
     utf8 [0x5151, 0x6362, 0x798F, 0x5229, 0x7801, 0x65F6, 0x53D1, 0x751F, 0x8BF7, 0x6C42,
        0x9519, 0x8BEF]"

definition lit_reward_error :: string where \<comment> \<open>line 314\<close>
  "lit_reward_error =
     utf8 [0x5151, 0x6362, 0x798F, 0x5229, 0x7801, 0x53D1, 0x751F, 0x9519, 0x8BEF] @ '': ''"

definition lit_reward_ok :: string where \<comment> \<open>line 317\<close>
  "lit_reward_ok =
     utf8 [0x5151, 0x6362, 0x798F, 0x5229, 0x7801, 0x6210, 0x529F] @ '': ''"

definition lit_reward_failed :: string where \<comment> \<open>line 323\<close>
  "lit_reward_failed =
     utf8 [0x5151, 0x6362, 0x798F, 0x5229, 0x7801, 0x5931, 0x8D25] @ '': ''"

definition gift_code :: string where \<comment> \<open>lines 388, 409\<close>
  "gift_code =
     utf8 [0x963F, 0x91CC, 0x4E91, 0x76D8, 0x4E24, 0x5468, 0x5E74]"

definition lit_already_redeemed :: string where \<comment> \<open>line 389\<close>
  "lit_already_redeemed =
     utf8 [0x5DF2, 0x7ECF, 0x5151, 0x6362, 0x8FC7, 0x8FD9, 0x4E2A, 0x798F, 0x5229, 0x7801,
        0x4E86] @
     ''.''"

definition title_signin :: string where \<comment> \<open>line 397\<close>
  "title_signin =
     utf8 [0x963F, 0x91CC, 0x4E91, 0x76D8, 0x7B7E, 0x5230]"

definition footer :: string where \<comment> \<open>lines 403-405\<close>
  "footer =
     [CHR 0x0A, CHR 0x0A] @ utf8 [0x8BE5, 0x529F, 0x80FD, 0x7531] @ '' '' @
     utf8 [0x963F, 0x91CC, 0x4E91, 0x76D8, 0x81EA, 0x52A8, 0x7B7E, 0x5230] @
     '' https://github.com/ImYrS/aliyun-auto-signin '' @ utf8 [0x63D0, 0x4F9B] @ ''.'' @
     [CHR 0x0A] @ utf8 [0x7528, 0x4E8E, 0x5C1D, 0x8BD5, 0x81EA, 0x52A8, 0x5151, 0x6362] @
     '' 500G '' @ utf8 [0x798F, 0x5229, 0x7801] @ '', '' @
     utf8 [0x4E24, 0x5468, 0x5E74, 0x6D3B, 0x52A8, 0x7ED3, 0x675F, 0x540E, 0x672C, 0x529F,
        0x80FD, 0x5C06, 0x88AB, 0x79FB, 0x9664] @
     ''.'' @ [CHR 0x0A] @
     utf8 [0x5982, 0x679C, 0x8FD9, 0x4E2A, 0x9879, 0x76EE, 0x5E2E, 0x52A9, 0x5230, 0x4E86,
        0x4F60] @
     '', '' @ utf8 [0x6B22, 0x8FCE, 0x7ED9, 0x6211, 0x4E00, 0x4E2A] @ '' Star '' @
     utf8 [0x6765, 0x652F, 0x6301, 0x6211, 0x6301, 0x7EED, 0x7EF4, 0x62A4, 0x548C, 0x66F4,
        0x65B0] @
     ''.''"

definition title_anniversary :: string where \<comment> \<open>line 409\<close>
  "title_anniversary =
     utf8 [0x963F, 0x91CC, 0x4E91, 0x76D8, 0x4E24, 0x5468, 0x5E74]"

text \<open>Decimal digits of an integer, as \<^verbatim>\<open>str\<close> gives them.\<close>

fun str_nat :: "nat \<Rightarrow> string" where
  "str_nat n = (if n < 10 then [char_of (48 + n)] else str_nat (n div 10) @ [char_of (48 + n mod 10)])"

definition str_int :: "int \<Rightarrow> string" where
  "str_int i = (if i < 0 then CHR ''-'' # str_nat (nat (- i)) else str_nat (nat i))"

text \<open>
  \<^verbatim>\<open>str(v)\<close>, which is also how an f-string renders \<open>v\<close>. A string renders as itself.
  A float, a list and a dict render through \<^verbatim>\<open>repr\<close>, which is not modelled: it is the
  parameter \<open>R\<close> of every function that formats a value, and every property below holds
  whatever \<open>R\<close> is.
\<close>

fun py_str :: "(json \<Rightarrow> string) \<Rightarrow> json \<Rightarrow> string" where
  "py_str R JNull = ''None''"
| "py_str R (JBool b) = (if b then ''True'' else ''False'')"
| "py_str R (JInt i) = str_int i"
| "py_str R (JStr s) = s"
| "py_str R v = R v"

text \<open>
  \<^verbatim>\<open>json.dumps(s, indent=2, ensure_ascii=False)\<close> on a string \<open>s\<close>: the string between
  double quotes, with the quote, the backslash and the control characters escaped.
\<close>

definition hex_digit :: "nat \<Rightarrow> char" where
  "hex_digit n = (if n < 10 then char_of (48 + n) else char_of (87 + n))"

definition json_escape :: "char \<Rightarrow> string" where
  "json_escape c =
     (if c = CHR 0x22 then [CHR 0x5C, CHR 0x22]
      else if c = CHR 0x5C then [CHR 0x5C, CHR 0x5C]
      else if c = CHR 0x0A then [CHR 0x5C, CHR ''n'']
      else if c = CHR 0x0D then [CHR 0x5C, CHR ''r'']
      else if c = CHR 0x09 then [CHR 0x5C, CHR ''t'']
      else if c = CHR 0x08 then [CHR 0x5C, CHR ''b'']
      else if c = CHR 0x0C then [CHR 0x5C, CHR ''f'']
      else if (of_char c :: nat) < 0x20 then
        [CHR 0x5C, CHR ''u'', CHR ''0'', CHR ''0'',
         hex_digit (of_char c div 16), hex_digit (of_char c mod 16)]
      else [c])"

definition json_dumps_str :: "string \<Rightarrow> string" where
  "json_dumps_str s = CHR 0x22 # concat (map json_escape s) @ [CHR 0x22]"

section \<open>The network\<close>

text \<open>
  The three endpoints are outside the program. A \<open>world\<close> is the list of the requests
  issued so far, oldest first; a \<open>net\<close> says what the newest request of such a list is
  answered with: \<^verbatim>\<open>requests.post\<close> raises a \<^verbatim>\<open>RequestException\<close>, or it returns a
  response whose \<^verbatim>\<open>json()\<close> raises, or one whose \<^verbatim>\<open>json()\<close> returns a value. Logging
  is not modelled.
\<close>

datatype request =
    TokenRequest string \<comment> \<open>the refresh token posted to the token endpoint\<close>
  | SignInRequest json \<comment> \<open>the access token of the Bearer header\<close>
  | RewardRequest json string \<comment> \<open>the Authorization header and the gift code\<close>

datatype reply = PostRaises string | JsonRaises string | Body json

type_synonym world = "request list"
type_synonym net = "request list \<Rightarrow> reply"

definition post :: "net \<Rightarrow> world \<Rightarrow> request \<Rightarrow> reply \<times> world" where
  "post net w rq = (net (w @ [rq]), w @ [rq])"

text \<open>\<^verbatim>\<open>requests.post(...).json()\<close> as one expression.\<close>

fun post_json :: "reply \<Rightarrow> exn + json" where
  "post_json (PostRaises m) = Inl (Request (RequestException m))"
| "post_json (JsonRaises m) = Inl (Request (JSONDecodeError m))"
| "post_json (Body d) = Inr d"

section \<open>SignIn\<close>

text \<open>
  The configuration: the two keys the program reads. Each is a string or a list of
  strings.
\<close>

datatype cfgval = CStr string | CList "string list"

record config =
  push_types :: cfgval
  refresh_tokens :: cfgval

text \<open>What \<^verbatim>\<open>self.error\<close> holds when it is not \<^verbatim>\<open>None\<close>.\<close>

datatype pyerr = PyExc request_exception | PyJson json

text \<open>The attributes of a \<^verbatim>\<open>SignIn\<close> object, and \<^verbatim>\<open>__init__\<close> (lines 27-46).\<close>

record signin =
  config :: config
  refresh_token :: string
  hide_refresh_token_attr :: string
  access_token :: json
  new_refresh_token :: json
  phone :: json
  signin_count :: json
  signin_reward :: "string option"
  error :: "pyerr option"

definition SignIn :: "config \<Rightarrow> string \<Rightarrow> signin" where
  "SignIn cfg tok =
     \<lparr>config = cfg, refresh_token = tok, hide_refresh_token_attr = hide_refresh_token tok,
      access_token = JNull, new_refresh_token = JNull, phone = JNull,
      signin_count = JInt 0, signin_reward = None, error = None\<rparr>"

subsection \<open>The credential exchange\<close>

text \<open>
  \<^verbatim>\<open>SignIn.__get_access_token\<close>, lines 93-100: the three fields are read and stored one
  after the other, so a field read before the missing one stays stored. The handler
  catches \<^verbatim>\<open>KeyError\<close> only.
\<close>

definition missing_fields ::
  "(json \<Rightarrow> string) \<Rightarrow> json \<Rightarrow> exn \<Rightarrow> signin \<Rightarrow> (exn + bool) \<times> signin" where
  "missing_fields R data e s =
     (case e of
        KeyError k \<Rightarrow>
          (Inr False, s\<lparr>error := Some (PyJson (JStr (lit_missing_fields @ py_str R data)))\<rparr>)
      | _ \<Rightarrow> (Inl e, s))"

definition read_fields ::
  "(json \<Rightarrow> string) \<Rightarrow> json \<Rightarrow> signin \<Rightarrow> (exn + bool) \<times> signin" where
  "read_fields R data s =
     (case getitem_str data ''access_token'' of
        Inl e \<Rightarrow> missing_fields R data e s
      | Inr a \<Rightarrow>
          (let s1 = s\<lparr>access_token := a\<rparr> in
           case getitem_str data ''refresh_token'' of
             Inl e \<Rightarrow> missing_fields R data e s1
           | Inr r \<Rightarrow>
               (let s2 = s1\<lparr>new_refresh_token := r\<rparr> in
                case getitem_str data ''user_name'' of
                  Inl e \<Rightarrow> missing_fields R data e s2
                | Inr p \<Rightarrow> (Inr True, s2\<lparr>phone := p\<rparr>))))"

text \<open>Lines 83-91: the provider's status code; a response without one goes on.\<close>

definition check_code ::
  "(json \<Rightarrow> string) \<Rightarrow> json \<Rightarrow> signin \<Rightarrow> (exn + bool) \<times> signin" where
  "check_code R data s =
     (case getitem_str data ''code'' of
        Inl e \<Rightarrow> (case e of KeyError k \<Rightarrow> read_fields R data s | _ \<Rightarrow> (Inl e, s))
      | Inr c \<Rightarrow>
          if c \<in> set [JStr ''RefreshTokenExpired'', JStr ''InvalidParameter.RefreshToken'']
          then (Inr False, s\<lparr>error := Some (PyJson data)\<rparr>)
          else read_fields R data s)"

text \<open>
  Lines 59-81: the request, and on a \<^verbatim>\<open>RequestException\<close> the call of itself with
  \<^verbatim>\<open>retry=True\<close>. The result is the exception that escapes or the returned flag, with
  the object and the requests issued.
\<close>

function get_access_token ::
  "(json \<Rightarrow> string) \<Rightarrow> net \<Rightarrow> bool \<Rightarrow> signin \<Rightarrow> world \<Rightarrow> (exn + bool) \<times> signin \<times> world" where
  "get_access_token R net retry s w =
     (case post net w (TokenRequest (refresh_token s)) of
        (rep, w1) \<Rightarrow>
          (case post_json rep of
             Inl e \<Rightarrow>
               (case e of
                  Request re \<Rightarrow>
                    if \<not> retry then get_access_token R net True s w1
                    else (Inr False, s\<lparr>error := Some (PyExc re)\<rparr>, w1)
                | _ \<Rightarrow> (Inl e, s, w1))
           | Inr data \<Rightarrow> (case check_code R data s of (r, s1) \<Rightarrow> (r, s1, w1))))"
  by pat_completeness auto
termination
  by (relation "measure (\<lambda>(R, net, retry, s, w). if retry then 0 else 1)") auto

declare get_access_token.simps [simp del]

subsection \<open>The sign-in\<close>

text \<open>
  \<^verbatim>\<open>SignIn.__sign_in\<close>, lines 132-136: the loop over the log. \<open>scan_logs data i days\<close> is
  the loop at index \<open>i\<close> with \<open>days\<close> left to visit; it gives the value of
  \<^verbatim>\<open>current_day\<close> after the loop, \<^verbatim>\<open>None\<close> when no entry has status \<^verbatim>\<open>miss\<close>.
\<close>

fun scan_logs :: "json \<Rightarrow> int \<Rightarrow> json list \<Rightarrow> exn + json" where
  "scan_logs data i [] = Inr JNull"
| "scan_logs data i (day # days) =
     bindE (getitem_str day ''status'') (\<lambda>status.
       if status = JStr ''miss'' then
         bindE (getitem_str data ''result'') (\<lambda>result.
         bindE (getitem_str result ''signInLogs'') (\<lambda>logs.
         getitem_int logs (i - 1)))
       else scan_logs data (i + 1) days)"

definition find_current_day :: "json \<Rightarrow> exn + json" where
  "find_current_day data =
     bindE (getitem_str data ''result'') (\<lambda>result.
     bindE (getitem_str result ''signInLogs'') (\<lambda>logs.
     bindE (py_iter logs) (\<lambda>days. scan_logs data 0 days)))"

text \<open>Lines 138-142: the reward text of \<^verbatim>\<open>current_day\<close>.\<close>

definition reward_of :: "(json \<Rightarrow> string) \<Rightarrow> json \<Rightarrow> exn + string" where
  "reward_of R current_day =
     bindE (getitem_str current_day ''isReward'') (\<lambda>is_reward.
       if \<not> py_truthy is_reward then Inr lit_no_reward
       else
         bindE (getitem_str current_day ''reward'') (\<lambda>rw.
         bindE (getitem_str rw ''name'') (\<lambda>name.
         bindE (getitem_str current_day ''reward'') (\<lambda>rw'.
         bindE (getitem_str rw' ''description'') (\<lambda>description.
         Inr (lit_got @ py_str R name @ '' '' @ py_str R description))))))"

text \<open>Lines 127-148: what the method does with a decoded response.\<close>

definition read_sign_in ::
  "(json \<Rightarrow> string) \<Rightarrow> json \<Rightarrow> signin \<Rightarrow> (exn + json) \<times> signin" where
  "read_sign_in R data s =
     (case py_contains ''success'' data of
        Inl e \<Rightarrow> (Inl e, s)
      | Inr present \<Rightarrow>
          if \<not> present then (Inr JNull, s\<lparr>error := Some (PyJson data)\<rparr>)
          else
            (case bindE (find_current_day data) (\<lambda>current_day.
                  bindE (reward_of R current_day) (\<lambda>reward.
                  bindE (getitem_str data ''result'') (\<lambda>result.
                  bindE (getitem_str result ''signInCount'') (\<lambda>n. Inr (reward, n))))) of
               Inl e \<Rightarrow> (Inl e, s)
             | Inr (reward, n) \<Rightarrow>
                 (Inr JNull, s\<lparr>signin_count := n, signin_reward := Some reward\<rparr>)))"

text \<open>Lines 104-125: the request and the one retry; the method returns \<^verbatim>\<open>None\<close> or \<^verbatim>\<open>False\<close>.\<close>

function sign_in ::
  "(json \<Rightarrow> string) \<Rightarrow> net \<Rightarrow> bool \<Rightarrow> signin \<Rightarrow> world \<Rightarrow> (exn + json) \<times> signin \<times> world" where
  "sign_in R net retry s w =
     (case post net w (SignInRequest (access_token s)) of
        (rep, w1) \<Rightarrow>
          (case post_json rep of
             Inl e \<Rightarrow>
               (case e of
                  Request re \<Rightarrow>
                    if \<not> retry then sign_in R net True s w1
                    else (Inr (JBool False), s\<lparr>error := Some (PyExc re)\<rparr>, w1)
                | _ \<Rightarrow> (Inl e, s, w1))
           | Inr data \<Rightarrow> (case read_sign_in R data s of (r, s1) \<Rightarrow> (r, s1, w1))))"
  by pat_completeness auto
termination
  by (relation "measure (\<lambda>(R, net, retry, s, w). if retry then 0 else 1)") auto

declare sign_in.simps [simp del]

subsection \<open>The outcome\<close>

text \<open>The dictionary \<^verbatim>\<open>SignIn.__generate_result\<close> returns (lines 172-180).\<close>

record outcome =
  res_success :: bool
  res_user :: json
  res_refresh_token :: json
  res_count :: json
  res_reward :: "string option"
  res_text :: string
  res_text_html :: string

definition str_error :: "(json \<Rightarrow> string) \<Rightarrow> pyerr option \<Rightarrow> string" where
  "str_error R err =
     (case err of None \<Rightarrow> ''None'' | Some (PyExc e) \<Rightarrow> str_exception e
      | Some (PyJson v) \<Rightarrow> py_str R v)"

definition str_reward :: "string option \<Rightarrow> string" where
  "str_reward r = (case r of None \<Rightarrow> ''None'' | Some t \<Rightarrow> t)"

definition generate_result :: "(json \<Rightarrow> string) \<Rightarrow> signin \<Rightarrow> outcome" where
  "generate_result R s =
     (let user = (if py_truthy (phone s) then phone s else JStr (hide_refresh_token_attr s));
          text =
            (if py_truthy (signin_count s) then
               ''['' @ py_str R user @ '']'' @ lit_signed_ok @ py_str R (signin_count s)
               @ lit_days @ str_reward (signin_reward s)
             else
               ''['' @ py_str R user @ '']'' @ lit_signed_failed
               @ json_dumps_str (str_error R (error s)));
          text_html =
            (if py_truthy (signin_count s) then
               ''<code>'' @ py_str R user @ ''</code>'' @ lit_signed_ok
               @ py_str R (signin_count s) @ lit_days @ str_reward (signin_reward s)
             else
               ''<code>'' @ py_str R user @ ''</code>'' @ lit_signed_failed
               @ ''<code>'' @ json_dumps_str (str_error R (error s)) @ ''</code>'')
      in \<lparr>res_success = (if py_truthy (signin_count s) then True else False),
          res_user = (if py_truthy (phone s) then phone s else JStr (hide_refresh_token_attr s)),
          res_refresh_token =
            (if py_truthy (new_refresh_token s) then new_refresh_token s
             else JStr (refresh_token s)),
          res_count = signin_count s,
          res_reward = signin_reward s,
          res_text = text,
          res_text_html = text_html\<rparr>)"

text \<open>\<^verbatim>\<open>SignIn.run\<close> (lines 182-193).\<close>

definition run ::
  "(json \<Rightarrow> string) \<Rightarrow> net \<Rightarrow> signin \<Rightarrow> world \<Rightarrow> (exn + outcome) \<times> signin \<times> world" where
  "run R net s w =
     (case get_access_token R net False s w of
        (Inl e, s1, w1) \<Rightarrow> (Inl e, s1, w1)
      | (Inr result, s1, w1) \<Rightarrow>
          if result then
            (case sign_in R net False s1 w1 of
               (Inl e, s2, w2) \<Rightarrow> (Inl e, s2, w2)
             | (Inr _, s2, w2) \<Rightarrow> (Inr (generate_result R s2), s2, w2))
          else (Inr (generate_result R s1), s1, w1))"

section \<open>push\<close>

text \<open>
  \<^verbatim>\<open>str.lower\<close> and \<^verbatim>\<open>str.strip\<close> are Python's own and follow the Unicode tables of
  the interpreter; they are not modelled. Where the program calls them they are the
  parameters \<open>lower\<close> and \<open>strip\<close>, and every property below holds whatever the two
  functions are.
\<close>

text \<open>
  The seven adapters are the modules \<^verbatim>\<open>dingtalk\<close>, ..., \<^verbatim>\<open>feishu\<close> of the package
  \<^verbatim>\<open>modules\<close>, outside this file. A call of \<^verbatim>\<open>pusher.push\<close> is recorded as the module
  with the four arguments it receives; what the module then does is not modelled.
\<close>

datatype call = Push string config string string "string option"

text \<open>The module a recorded call goes to.\<close>

fun adapter :: "call \<Rightarrow> string" where
  "adapter (Push p cfg content content_html title) = p"

text \<open>\<^verbatim>\<open>push\<close>, lines 212-219.\<close>

definition configured_push_types ::
  "(string \<Rightarrow> string) \<Rightarrow> (string \<Rightarrow> string) \<Rightarrow> config \<Rightarrow> string list" where
  "configured_push_types lower strip cfg =
     map (\<lambda>i. strip (lower i))
       (case push_types cfg of CStr s \<Rightarrow> [s] | CList l \<Rightarrow> l)"

text \<open>The keys of the dict of line 221, in the order it is written; each names its module.\<close>

definition pushers :: "string list" where
  "pushers =
     [''dingtalk'', ''serverchan'', ''pushdeer'', ''telegram'', ''pushplus'', ''smtp'',
      ''feishu'']"

text \<open>Lines 221-231: the loop over the items of the dict, giving the calls it makes.\<close>

fun push_loop ::
  "string list \<Rightarrow> string list \<Rightarrow> config \<Rightarrow> string \<Rightarrow> string \<Rightarrow> string option \<Rightarrow> call list" where
  "push_loop configured [] cfg content content_html title = []"
| "push_loop configured (push_type # rest) cfg content content_html title =
     (if push_type \<in> set configured
      then Push push_type cfg content content_html title
           # push_loop configured rest cfg content content_html title
      else push_loop configured rest cfg content content_html title)"

definition push ::
  "(string \<Rightarrow> string) \<Rightarrow> (string \<Rightarrow> string) \<Rightarrow> config \<Rightarrow> string \<Rightarrow> string \<Rightarrow> string option
     \<Rightarrow> call list" where
  "push lower strip cfg content content_html title =
     push_loop (configured_push_types lower strip cfg) pushers cfg content content_html title"

section \<open>Redeeming the gift code\<close>

text \<open>
  \<^verbatim>\<open>reward_code\<close> (lines 293-323). Only \<^verbatim>\<open>requests.post\<close> stands in the \<^verbatim>\<open>try\<close>;
  \<^verbatim>\<open>request.json()\<close> follows it. The result \<open>None\<close> is Python's \<^verbatim>\<open>None\<close>.
\<close>

definition read_reward :: "(json \<Rightarrow> string) \<Rightarrow> json \<Rightarrow> exn + string option" where
  "read_reward R data =
     bindE (py_contains ''success'' data) (\<lambda>present.
       if \<not> present then
         bindE (getitem_str data ''message'') (\<lambda>m. Inr (Some (lit_reward_error @ py_str R m)))
       else
         bindE (getitem_str data ''success'') (\<lambda>success.
           if py_truthy success then
             bindE (getitem_str data ''result'') (\<lambda>result.
             bindE (getitem_str result ''message'') (\<lambda>m.
             Inr (Some (lit_reward_ok @ py_str R m))))
           else
             bindE (getitem_str data ''code'') (\<lambda>c.
               if c = JStr ''30009'' then Inr None
               else
                 bindE (getitem_str data ''message'') (\<lambda>m.
                 Inr (Some (lit_reward_failed @ py_str R m))))))"

definition reward_code ::
  "(json \<Rightarrow> string) \<Rightarrow> net \<Rightarrow> json \<Rightarrow> string \<Rightarrow> world \<Rightarrow> (exn + string option) \<times> world" where
  "reward_code R net token code w =
     (case post net w (RewardRequest token code) of
        (rep, w1) \<Rightarrow>
          (case rep of
             PostRaises m \<Rightarrow> (Inr (Some lit_reward_request_error), w1)
           | JsonRaises m \<Rightarrow> (Inl (Request (JSONDecodeError m)), w1)
           | Body data \<Rightarrow> (read_reward R data, w1)))"

section \<open>main\<close>

text \<open>
  \<^verbatim>\<open>main\<close> from line 371 to line 412, with the configuration as an argument: the loop
  over the accounts, the two pushes and the list of refresh tokens. Handing that list
  to the configuration file or to GitHub (lines 414-422) is not modelled.
\<close>

text \<open>The body of the loop (lines 381-391) on \<^verbatim>\<open>results\<close>, \<^verbatim>\<open>rewards\<close> and the requests.\<close>

definition main_step ::
  "(json \<Rightarrow> string) \<Rightarrow> net \<Rightarrow> config \<Rightarrow> string \<Rightarrow> outcome list \<times> string list \<times> world
     \<Rightarrow> (exn + outcome list \<times> string list) \<times> world" where
  "main_step R net cfg user st =
     (case st of
        (results, rewards, w) \<Rightarrow>
          (case run R net (SignIn cfg user) w of
             (Inl e, s, w1) \<Rightarrow> (Inl e, w1)
           | (Inr out, s, w1) \<Rightarrow>
               if \<not> py_truthy (access_token s) then (Inr (results @ [out], rewards), w1)
               else
                 (case reward_code R net (access_token s) gift_code w1 of
                    (Inl e, w2) \<Rightarrow> (Inl e, w2)
                  | (Inr reward, w2) \<Rightarrow>
                      (let reward1 =
                             (case reward of None \<Rightarrow> lit_already_redeemed | Some r \<Rightarrow> r);
                           reward2 = ''['' @ py_str R (phone s) @ ''] '' @ reward1
                       in (Inr (results @ [out], rewards @ [reward2]), w2)))))"

fun main_loop ::
  "(json \<Rightarrow> string) \<Rightarrow> net \<Rightarrow> config \<Rightarrow> string list \<Rightarrow> outcome list \<Rightarrow> string list \<Rightarrow> world
     \<Rightarrow> (exn + outcome list \<times> string list) \<times> world" where
  "main_loop R net cfg [] results rewards w = (Inr (results, rewards), w)"
| "main_loop R net cfg (user # users) results rewards w =
     (case main_step R net cfg user (results, rewards, w) of
        (Inl e, w1) \<Rightarrow> (Inl e, w1)
      | (Inr (results1, rewards1), w1) \<Rightarrow> main_loop R net cfg users results1 rewards1 w1)"

text \<open>What \<^verbatim>\<open>main\<close> has computed when it reaches line 412.\<close>

record report =
  rep_results :: "outcome list"
  rep_rewards :: "string list"
  rep_text :: string
  rep_text_html :: string
  rep_calls :: "call list"
  rep_new_users :: "json list"

definition main ::
  "(string \<Rightarrow> string) \<Rightarrow> (string \<Rightarrow> string) \<Rightarrow> (json \<Rightarrow> string) \<Rightarrow> net \<Rightarrow> config \<Rightarrow> world
     \<Rightarrow> (exn + report) \<times> world" where
  "main lower strip R net cfg w =
     (let users = (case refresh_tokens cfg of CStr s \<Rightarrow> [s] | CList l \<Rightarrow> l) in
      case main_loop R net cfg users [] [] w of
        (Inl e, w1) \<Rightarrow> (Inl e, w1)
      | (Inr (results, rewards), w1) \<Rightarrow>
          (let text = py_join [CHR 0x0A, CHR 0x0A] (map res_text results);
               text_html = py_join [CHR 0x0A, CHR 0x0A] (map res_text_html results);
               calls1 = push lower strip cfg text text_html (Some title_signin);
               calls2 =
                 (if rewards \<noteq> [] then
                    (let t = py_join [CHR 0x0A, CHR 0x0A] rewards @ footer
                     in push lower strip cfg t t (Some title_anniversary))
                  else []);
               new_users = map res_refresh_token results
           in (Inr \<lparr>rep_results = results, rep_rewards = rewards, rep_text = text,
                     rep_text_html = text_html, rep_calls = calls1 @ calls2,
                     rep_new_users = new_users\<rparr>, w1)))"

section \<open>Properties\<close>

lemma py_slice_prefix: "py_slice xs None (Some 4) = take 4 xs"
  by (simp add: py_slice_def Let_def min_def)

lemma py_slice_suffix: "py_slice xs (Some (- 4)) None = drop (length xs - 4) xs"
  by (auto simp: py_slice_def Let_def max_def nat_diff_distrib')

lemma py_slice_middle: "py_slice xs (Some 4) (Some (- 4)) = drop 4 (take (length xs - 4) xs)"
  by (auto simp: py_slice_def Let_def max_def min_def drop_take nat_diff_distrib')

lemma hide_refresh_token_eq:
  "hide_refresh_token tok =
     take 4 tok @ replicate (length tok - 8) (CHR ''*'') @ drop (length tok - 4) tok"
  by (simp add: hide_refresh_token_def hide_attempt_def py_slice_prefix py_slice_suffix
      py_slice_middle)

text \<open>
  The masking of a token of at least 8 characters: same length, first and last four
  characters kept, every character in between replaced by the mask symbol.
\<close>

lemma hide_refresh_token_long:
  assumes "8 \<le> length tok"
  shows "length (hide_refresh_token tok) = length tok"
    and "take 4 (hide_refresh_token tok) = take 4 tok"
    and "drop (length tok - 4) (hide_refresh_token tok) = drop (length tok - 4) tok"
    and "\<forall>i. 4 \<le> i \<and> i < length tok - 4 \<longrightarrow> hide_refresh_token tok ! i = CHR ''*''"
  using assms by (auto simp: hide_refresh_token_eq nth_append)

text \<open>
  C2. The specification asks that a token shorter than 8 characters comes back unchanged. The
  handler that would return it is never entered, since slicing does not raise: the
  5-character token \<open>abcde\<close> comes back as its first four characters followed by its last
  four, 8 characters long.
\<close>

theorem hide_refresh_token_short_changed:
  "hide_refresh_token ''abcde'' = ''abcdbcde''"
  by (simp add: hide_refresh_token_eq)

subsection \<open>Unfolding the two requests\<close>

lemma get_access_token_retry:
  "get_access_token R net True s w =
     (case post_json (net (w @ [TokenRequest (refresh_token s)])) of
        Inl (Request re) \<Rightarrow>
          (Inr False, s\<lparr>error := Some (PyExc re)\<rparr>, w @ [TokenRequest (refresh_token s)])
      | Inl e \<Rightarrow> (Inl e, s, w @ [TokenRequest (refresh_token s)])
      | Inr data \<Rightarrow>
          (fst (check_code R data s), snd (check_code R data s),
           w @ [TokenRequest (refresh_token s)]))"
  by (subst get_access_token.simps)
    (simp add: post_def split: sum.splits exn.splits prod.splits)

lemma get_access_token_first:
  "get_access_token R net False s w =
     (case post_json (net (w @ [TokenRequest (refresh_token s)])) of
        Inl (Request re) \<Rightarrow>
          get_access_token R net True s (w @ [TokenRequest (refresh_token s)])
      | Inl e \<Rightarrow> (Inl e, s, w @ [TokenRequest (refresh_token s)])
      | Inr data \<Rightarrow>
          (fst (check_code R data s), snd (check_code R data s),
           w @ [TokenRequest (refresh_token s)]))"
  by (subst get_access_token.simps)
    (simp add: post_def split: sum.splits exn.splits prod.splits)

lemma get_access_token_body:
  "net (w @ [TokenRequest (refresh_token s)]) = Body data \<Longrightarrow>
   get_access_token R net retry s w =
     (fst (check_code R data s), snd (check_code R data s),
      w @ [TokenRequest (refresh_token s)])"
  by (cases retry) (simp_all add: get_access_token_retry get_access_token_first)

lemma sign_in_retry:
  "sign_in R net True s w =
     (case post_json (net (w @ [SignInRequest (access_token s)])) of
        Inl (Request re) \<Rightarrow>
          (Inr (JBool False), s\<lparr>error := Some (PyExc re)\<rparr>,
           w @ [SignInRequest (access_token s)])
      | Inl e \<Rightarrow> (Inl e, s, w @ [SignInRequest (access_token s)])
      | Inr data \<Rightarrow>
          (fst (read_sign_in R data s), snd (read_sign_in R data s),
           w @ [SignInRequest (access_token s)]))"
  by (subst sign_in.simps)
    (simp add: post_def split: sum.splits exn.splits prod.splits)

lemma sign_in_first:
  "sign_in R net False s w =
     (case post_json (net (w @ [SignInRequest (access_token s)])) of
        Inl (Request re) \<Rightarrow> sign_in R net True s (w @ [SignInRequest (access_token s)])
      | Inl e \<Rightarrow> (Inl e, s, w @ [SignInRequest (access_token s)])
      | Inr data \<Rightarrow>
          (fst (read_sign_in R data s), snd (read_sign_in R data s),
           w @ [SignInRequest (access_token s)]))"
  by (subst sign_in.simps)
    (simp add: post_def split: sum.splits exn.splits prod.splits)

lemma sign_in_body:
  "net (w @ [SignInRequest (access_token s)]) = Body data \<Longrightarrow>
   sign_in R net retry s w =
     (fst (read_sign_in R data s), snd (read_sign_in R data s),
      w @ [SignInRequest (access_token s)])"
  by (cases retry) (simp_all add: sign_in_retry sign_in_first)

text \<open>The loop over the log stops at the first entry with status miss.\<close>

lemma scan_logs_first_miss:
  assumes "k < length days"
    and "getitem_str (days ! k) ''status'' = Inr (JStr ''miss'')"
    and "\<forall>j<k. \<exists>st. getitem_str (days ! j) ''status'' = Inr st \<and> st \<noteq> JStr ''miss''"
  shows "scan_logs data i days =
     bindE (getitem_str data ''result'') (\<lambda>result.
     bindE (getitem_str result ''signInLogs'') (\<lambda>logs. getitem_int logs (i + int k - 1)))"
  using assms
proof (induction days arbitrary: i k)
  case Nil
  then show ?case by simp
next
  case (Cons day days)
  show ?case
  proof (cases k)
    case 0
    with Cons.prems show ?thesis by (simp add: bindE_def)
  next
    case (Suc k')
    from Cons.prems(3) Suc obtain st where
      st: "getitem_str day ''status'' = Inr st" "st \<noteq> JStr ''miss''"
      by fastforce
    have later: "\<forall>j<k'. \<exists>st. getitem_str (days ! j) ''status'' = Inr st \<and> st \<noteq> JStr ''miss''"
      using Cons.prems(3) Suc by fastforce
    have "scan_logs data (i + 1) days =
       bindE (getitem_str data ''result'') (\<lambda>result.
       bindE (getitem_str result ''signInLogs'') (\<lambda>logs.
         getitem_int logs (i + 1 + int k' - 1)))"
      using Cons.prems(1,2) Suc later by (intro Cons.IH) simp_all
    with st Suc show ?thesis by (simp add: bindE_def algebra_simps)
  qed
qed

subsection \<open>What a session returns\<close>

lemma run_outcome:
  assumes "run R net s w = (Inr out, s', w')"
  shows "out = generate_result R s'"
  using assms by (auto simp: run_def split: prod.splits sum.splits if_splits)

lemma check_code_count_error:
  "signin_count (snd (check_code R data s)) = signin_count s
   \<and> (fst (check_code R data s) = Inr True \<longrightarrow> error (snd (check_code R data s)) = error s)"
  by (auto simp: check_code_def read_fields_def missing_fields_def Let_def
      split: sum.splits exn.splits)

lemma get_access_token_retry_count_error:
  "signin_count (fst (snd (get_access_token R net True s w))) = signin_count s
   \<and> (fst (get_access_token R net True s w) = Inr True \<longrightarrow>
        error (fst (snd (get_access_token R net True s w))) = error s)"
  using check_code_count_error
  by (auto simp: get_access_token_retry split: sum.splits exn.splits)

lemma get_access_token_count_error:
  "signin_count (fst (snd (get_access_token R net False s w))) = signin_count s
   \<and> (fst (get_access_token R net False s w) = Inr True \<longrightarrow>
        error (fst (snd (get_access_token R net False s w))) = error s)"
  using check_code_count_error get_access_token_retry_count_error
  by (auto simp: get_access_token_first split: sum.splits exn.splits)

lemma read_sign_in_count_or_error:
  "signin_count (snd (read_sign_in R data s)) = signin_count s
   \<or> error (snd (read_sign_in R data s)) = error s"
  by (auto simp: read_sign_in_def split: sum.splits prod.splits)

lemma sign_in_retry_count_or_error:
  "signin_count (fst (snd (sign_in R net True s w))) = signin_count s
   \<or> error (fst (snd (sign_in R net True s w))) = error s"
  using read_sign_in_count_or_error
  by (auto simp: sign_in_retry split: sum.splits exn.splits)

lemma sign_in_count_or_error:
  "signin_count (fst (snd (sign_in R net False s w))) = signin_count s
   \<or> error (fst (snd (sign_in R net False s w))) = error s"
  using read_sign_in_count_or_error sign_in_retry_count_or_error
  by (auto simp: sign_in_first split: sum.splits exn.splits)

text \<open>
  Where \<open>run\<close> does return, an outcome with an error recorded is a failure: the
  success flag is false and the count is 0.
\<close>

lemma run_error_outcome:
  assumes "run R net (SignIn cfg tok) w = (Inr out, s', w')" and "error s' \<noteq> None"
  shows "\<not> res_success out \<and> res_count out = JInt 0"
proof -
  let ?s = "SignIn cfg tok"
  obtain r1 s1 w1 where g: "get_access_token R net False ?s w = (r1, s1, w1)"
    by (cases "get_access_token R net False ?s w") auto
  have c1: "signin_count s1 = JInt 0"
    and e1: "r1 = Inr True \<longrightarrow> error s1 = None"
    using get_access_token_count_error [of R net ?s w] g by (simp_all add: SignIn_def)
  have "signin_count s' = JInt 0"
  proof (cases "r1 = Inr True")
    case True
    obtain r2 s2 w2 where sg: "sign_in R net False s1 w1 = (r2, s2, w2)"
      by (cases "sign_in R net False s1 w1") auto
    from assms(1) g sg True have "s' = s2"
      by (auto simp: run_def split: sum.splits)
    with sign_in_count_or_error [of R net s1 w1] sg c1 e1 True assms(2)
    show ?thesis by auto
  next
    case False
    with assms(1) g have "s' = s1"
      by (auto simp: run_def split: sum.splits if_splits)
    with c1 show ?thesis by simp
  qed
  moreover have "out = generate_result R s'" using assms(1) by (rule run_outcome)
  ultimately show ?thesis by (simp add: generate_result_def Let_def)
qed

text \<open>
  C1. The specification asks that \<open>run\<close> returns an outcome whatever the responses are, also
  when no entry of the sign-in log has status \<open>miss\<close>. On such a log the loop leaves
  \<^verbatim>\<open>current_day\<close> at \<^verbatim>\<open>None\<close>, and reading its \<^verbatim>\<open>isReward\<close> raises a \<^verbatim>\<open>TypeError\<close> that
  nothing catches: \<open>run\<close> raises instead of returning. Here the exchange succeeds and
  the log has two signed entries. (Where \<open>run\<close> does return with an error recorded, the
  outcome is the failure the specification describes: \<open>run_error_outcome\<close>.)
\<close>

theorem run_raises_when_no_entry_missed:
  "fst (run (\<lambda>_. [])
      (\<lambda>w. if length w = 1
         then Body (JObj [(''access_token'', JStr ''at''), (''refresh_token'', JStr ''rt2''),
                          (''user_name'', JStr ''138'')])
         else Body (JObj [(''success'', JBool True),
            (''result'', JObj [(''signInCount'', JInt 2),
               (''signInLogs'', JArr [
                  JObj [(''status'', JStr ''normal''), (''isReward'', JBool False)],
                  JObj [(''status'', JStr ''normal''), (''isReward'', JBool False)]])])]))
      (SignIn \<lparr>push_types = CList [], refresh_tokens = CStr ''0123456789abcdef''\<rparr>
         ''0123456789abcdef'') [])
   = Inl TypeError"
  by (simp add: run_def get_access_token_first sign_in_first SignIn_def check_code_def
      read_fields_def read_sign_in_def find_current_day_def reward_of_def bindE_def)

text \<open>
  C3. Let the sign-in response carry the success indicator, a sign-in count and a log
  whose entry \<open>k\<close>, with \<open>k\<close> at least 1, is the first with status \<open>miss\<close>, every entry
  before it having another status. Then today's entry is entry \<open>k - 1\<close>: the stored
  reward text is the no-reward message when that entry's \<open>isReward\<close> flag is false, and
  is made of the name and the description of that entry's reward when the flag is true;
  the stored count is the response's \<open>signInCount\<close>.
\<close>

theorem sign_in_reads_day_before_first_miss:
  assumes reply: "net (w @ [SignInRequest (access_token s)]) = Body data"
    and success: "py_contains ''success'' data = Inr True"
    and result: "getitem_str data ''result'' = Inr result"
    and logs: "getitem_str result ''signInLogs'' = Inr (JArr logs)"
    and count: "getitem_str result ''signInCount'' = Inr n"
    and k: "1 \<le> k" "k < length logs"
    and miss: "getitem_str (logs ! k) ''status'' = Inr (JStr ''miss'')"
    and signed: "\<forall>j<k. \<exists>st. getitem_str (logs ! j) ''status'' = Inr st \<and> st \<noteq> JStr ''miss''"
    and flag: "getitem_str (logs ! (k - 1)) ''isReward'' = Inr is_reward"
    and reward: "py_truthy is_reward \<longrightarrow>
        (\<exists>rw. getitem_str (logs ! (k - 1)) ''reward'' = Inr rw
           \<and> getitem_str rw ''name'' = Inr name
           \<and> getitem_str rw ''description'' = Inr description)"
  shows "find_current_day data = Inr (logs ! (k - 1))
    \<and> sign_in R net retry s w =
        (Inr JNull,
         s\<lparr>signin_count := n,
           signin_reward := Some (if py_truthy is_reward
              then lit_got @ py_str R name @ '' '' @ py_str R description
              else lit_no_reward)\<rparr>,
         w @ [SignInRequest (access_token s)])"
proof -
  have today: "find_current_day data = Inr (logs ! (k - 1))"
    using scan_logs_first_miss [OF k(2) miss signed, of data 0] result logs k
    by (simp add: find_current_day_def bindE_def py_index_def nat_diff_distrib')
  have rw: "reward_of R (logs ! (k - 1)) =
      Inr (if py_truthy is_reward
           then lit_got @ py_str R name @ '' '' @ py_str R description else lit_no_reward)"
    using flag reward by (auto simp: reward_of_def bindE_def)
  have "read_sign_in R data s =
      (Inr JNull,
       s\<lparr>signin_count := n,
         signin_reward := Some (if py_truthy is_reward
            then lit_got @ py_str R name @ '' '' @ py_str R description
            else lit_no_reward)\<rparr>)"
    using success today rw result count by (simp add: read_sign_in_def bindE_def)
  with today reply show ?thesis by (simp add: sign_in_body [where net = net and data = data])
qed


theorem sign_in_reads_day_before_first_miss_witness:
  "sign_in (\<lambda>_. [])
     (\<lambda>_. Body (JObj [(''success'', JBool True),
        (''result'', JObj [(''signInCount'', JInt 2),
           (''signInLogs'', JArr [
              JObj [(''status'', JStr ''normal''), (''isReward'', JBool False)],
              JObj [(''status'', JStr ''normal''), (''isReward'', JBool True),
                    (''reward'', JObj [(''name'', JStr ''box''),
                                       (''description'', JStr ''1 day'')])],
              JObj [(''status'', JStr ''miss''), (''isReward'', JBool False)]])])]))
     False (SignIn \<lparr>push_types = CList [], refresh_tokens = CList []\<rparr> ''0123456789'') []
   = (Inr JNull,
      (SignIn \<lparr>push_types = CList [], refresh_tokens = CList []\<rparr> ''0123456789'')
        \<lparr>signin_count := JInt 2, signin_reward := Some (lit_got @ ''box 1 day'')\<rparr>,
      [SignInRequest JNull])"
proof -
  let ?rw = "JObj [(''name'', JStr ''box''), (''description'', JStr ''1 day'')]"
  let ?logs = "[JObj [(''status'', JStr ''normal''), (''isReward'', JBool False)],
     JObj [(''status'', JStr ''normal''), (''isReward'', JBool True), (''reward'', ?rw)],
     JObj [(''status'', JStr ''miss''), (''isReward'', JBool False)]]"
  let ?result = "JObj [(''signInCount'', JInt 2), (''signInLogs'', JArr ?logs)]"
  let ?data = "JObj [(''success'', JBool True), (''result'', ?result)]"
  let ?s = "SignIn \<lparr>push_types = CList [], refresh_tokens = CList []\<rparr> ''0123456789''"
  show ?thesis
    using sign_in_reads_day_before_first_miss
      [where net = "\<lambda>_. Body ?data" and w = "[]" and s = ?s and data = ?data
         and result = ?result and logs = ?logs and n = "JInt 2" and k = 2
         and is_reward = "JBool True" and name = "JStr ''box''"
         and description = "JStr ''1 day''" and R = "\<lambda>_. []" and retry = False]
    by (simp add: less_Suc_eq numeral_2_eq_2 SignIn_def)
qed

text \<open>
  C5. A response to the exchange whose \<open>code\<close> is \<open>RefreshTokenExpired\<close> or
  \<open>InvalidParameter.RefreshToken\<close> makes the exchange return \<open>False\<close> with that response
  stored as the error, after this one request, on the first attempt and on a retry
  alike.
\<close>

theorem expired_refresh_token_fails_without_retry:
  assumes "net (w @ [TokenRequest (refresh_token s)]) = Body data"
    and "getitem_str data ''code'' = Inr (JStr c)"
    and "c = ''RefreshTokenExpired'' \<or> c = ''InvalidParameter.RefreshToken''"
  shows "get_access_token R net retry s w =
     (Inr False, s\<lparr>error := Some (PyJson data)\<rparr>, w @ [TokenRequest (refresh_token s)])"
  using assms by (auto simp: get_access_token_body [where net = net and data = data] check_code_def)

theorem expired_refresh_token_fails_without_retry_witness:
  "get_access_token (\<lambda>_. []) (\<lambda>_. Body (JObj [(''code'', JStr ''RefreshTokenExpired''),
        (''message'', JStr ''expired'')])) False
      (SignIn \<lparr>push_types = CList [], refresh_tokens = CList []\<rparr> ''0123456789'') []
   = (Inr False,
      (SignIn \<lparr>push_types = CList [], refresh_tokens = CList []\<rparr> ''0123456789'')
        \<lparr>error := Some (PyJson (JObj [(''code'', JStr ''RefreshTokenExpired''),
        (''message'', JStr ''expired'')]))\<rparr>,
      [TokenRequest ''0123456789''])"
  using expired_refresh_token_fails_without_retry
    [of "\<lambda>_. Body (JObj [(''code'', JStr ''RefreshTokenExpired''),
        (''message'', JStr ''expired'')])" "[]"
      "SignIn \<lparr>push_types = CList [], refresh_tokens = CList []\<rparr> ''0123456789''"
      _ "''RefreshTokenExpired''" "\<lambda>_. []" False]
  by (simp add: SignIn_def)

subsection \<open>The exchange and the outcome\<close>

lemma read_fields_ok:
  assumes "getitem_str data ''access_token'' = Inr a"
    and "getitem_str data ''refresh_token'' = Inr r"
    and "getitem_str data ''user_name'' = Inr p"
  shows "read_fields R data s =
     (Inr True, s\<lparr>access_token := a, new_refresh_token := r, phone := p\<rparr>)"
  using assms by (simp add: read_fields_def)

lemma check_code_passes:
  assumes "\<forall>c. getitem_str data ''code'' = Inr c \<longrightarrow>
       c \<noteq> JStr ''RefreshTokenExpired'' \<and> c \<noteq> JStr ''InvalidParameter.RefreshToken''"
    and "getitem_str data ''access_token'' = Inr a"
  shows "check_code R data s = read_fields R data s"
proof (cases data)
  case (JObj kvs)
  with assms(1) show ?thesis
    by (auto simp: check_code_def split: option.splits)
qed (use assms(2) in simp_all)

text \<open>
  C4. Let the first request of the exchange fail with a \<^verbatim>\<open>RequestException\<close>. Then the
  exchange issues exactly one more request. If that one is answered with the three
  fields and no invalid-token code, the exchange succeeds with them, the session goes
  on to sign in with the new access token, and the outcome is successful whenever that
  sign-in stores a count that is not zero. If the second request fails as well, the
  exchange returns \<open>False\<close>, the recorded error is the second exception, and the outcome is
  a failure with count 0 whose text serialises that second error.
\<close>

theorem token_exchange_retries_once:
  assumes first: "post_json (net (w @ [TokenRequest tok])) = Inl (Request e)"
  shows
    "(net (w @ [TokenRequest tok, TokenRequest tok]) = Body data
       \<and> (\<forall>c. getitem_str data ''code'' = Inr c \<longrightarrow>
             c \<noteq> JStr ''RefreshTokenExpired'' \<and> c \<noteq> JStr ''InvalidParameter.RefreshToken'')
       \<and> getitem_str data ''access_token'' = Inr a
       \<and> getitem_str data ''refresh_token'' = Inr r
       \<and> getitem_str data ''user_name'' = Inr p
      \<longrightarrow>
        get_access_token R net False (SignIn cfg tok) w =
          (Inr True, (SignIn cfg tok)\<lparr>access_token := a, new_refresh_token := r, phone := p\<rparr>,
           w @ [TokenRequest tok, TokenRequest tok])
        \<and> (\<forall>v s' w'.
              sign_in R net False
                ((SignIn cfg tok)\<lparr>access_token := a, new_refresh_token := r, phone := p\<rparr>)
                (w @ [TokenRequest tok, TokenRequest tok]) = (Inr v, s', w')
              \<and> py_truthy (signin_count s')
            \<longrightarrow> (\<exists>out. run R net (SignIn cfg tok) w = (Inr out, s', w') \<and> res_success out)))
     \<and> (post_json (net (w @ [TokenRequest tok, TokenRequest tok])) = Inl (Request e')
      \<longrightarrow>
        get_access_token R net False (SignIn cfg tok) w =
          (Inr False, (SignIn cfg tok)\<lparr>error := Some (PyExc e')\<rparr>,
           w @ [TokenRequest tok, TokenRequest tok])
        \<and> (\<exists>out. run R net (SignIn cfg tok) w =
              (Inr out, (SignIn cfg tok)\<lparr>error := Some (PyExc e')\<rparr>,
               w @ [TokenRequest tok, TokenRequest tok])
             \<and> \<not> res_success out \<and> res_count out = JInt 0
             \<and> res_text out =
                 ''['' @ hide_refresh_token tok @ '']'' @ lit_signed_failed
                 @ json_dumps_str (str_exception e')))"
proof -
  let ?s = "SignIn cfg tok"
  let ?w2 = "w @ [TokenRequest tok, TokenRequest tok]"
  have tok: "refresh_token ?s = tok" by (simp add: SignIn_def)
  have step: "get_access_token R net False ?s w = get_access_token R net True ?s (w @ [TokenRequest tok])"
    using first by (simp add: get_access_token_first tok)
  have succeeds: "get_access_token R net False ?s w =
          (Inr True, ?s\<lparr>access_token := a, new_refresh_token := r, phone := p\<rparr>, ?w2)
        \<and> (\<forall>v s' w'.
              sign_in R net False (?s\<lparr>access_token := a, new_refresh_token := r, phone := p\<rparr>) ?w2
                = (Inr v, s', w')
              \<and> py_truthy (signin_count s')
            \<longrightarrow> (\<exists>out. run R net ?s w = (Inr out, s', w') \<and> res_success out))"
    if body: "net ?w2 = Body data"
      and code: "\<forall>c. getitem_str data ''code'' = Inr c \<longrightarrow>
             c \<noteq> JStr ''RefreshTokenExpired'' \<and> c \<noteq> JStr ''InvalidParameter.RefreshToken''"
      and fields: "getitem_str data ''access_token'' = Inr a"
        "getitem_str data ''refresh_token'' = Inr r" "getitem_str data ''user_name'' = Inr p"
  proof -
    have "check_code R data ?s =
        (Inr True, ?s\<lparr>access_token := a, new_refresh_token := r, phone := p\<rparr>)"
      using check_code_passes [OF code fields(1)] read_fields_ok [OF fields] by simp
    with body have got: "get_access_token R net False ?s w =
        (Inr True, ?s\<lparr>access_token := a, new_refresh_token := r, phone := p\<rparr>, ?w2)"
      by (simp add: step get_access_token_retry tok)
    then show ?thesis
      by (auto simp: run_def generate_result_def Let_def)
  qed
  have fails: "get_access_token R net False ?s w = (Inr False, ?s\<lparr>error := Some (PyExc e')\<rparr>, ?w2)
        \<and> (\<exists>out. run R net ?s w = (Inr out, ?s\<lparr>error := Some (PyExc e')\<rparr>, ?w2)
             \<and> \<not> res_success out \<and> res_count out = JInt 0
             \<and> res_text out =
                 ''['' @ hide_refresh_token tok @ '']'' @ lit_signed_failed
                 @ json_dumps_str (str_exception e'))"
    if second: "post_json (net ?w2) = Inl (Request e')"
  proof -
    have got: "get_access_token R net False ?s w = (Inr False, ?s\<lparr>error := Some (PyExc e')\<rparr>, ?w2)"
      using second by (simp add: step get_access_token_retry tok)
    then show ?thesis
      by (simp add: run_def generate_result_def Let_def SignIn_def str_error_def)
  qed
  from succeeds fails show ?thesis by blast
qed



theorem token_exchange_retries_once_witness:
  "(\<exists>out s' w'.
      run (\<lambda>_. [])
        (\<lambda>w. if length w = 1 then PostRaises ''timed out''
           else if length w = 2 then
             Body (JObj [(''access_token'', JStr ''at''), (''refresh_token'', JStr ''rt2''),
                         (''user_name'', JStr ''138'')])
           else
             Body (JObj [(''success'', JBool True),
                (''result'', JObj [(''signInCount'', JInt 1),
                   (''signInLogs'', JArr [
                      JObj [(''status'', JStr ''normal''), (''isReward'', JBool False)],
                      JObj [(''status'', JStr ''miss''), (''isReward'', JBool False)]])])]))
        (SignIn \<lparr>push_types = CList [], refresh_tokens = CList []\<rparr> ''0123456789'') []
        = (Inr out, s', w')
      \<and> res_success out)
   \<and> (\<exists>out.
      run (\<lambda>_. []) (\<lambda>w. if length w = 1 then PostRaises ''timed out'' else PostRaises ''refused'')
        (SignIn \<lparr>push_types = CList [], refresh_tokens = CList []\<rparr> ''0123456789'') []
        = (Inr out,
           (SignIn \<lparr>push_types = CList [], refresh_tokens = CList []\<rparr> ''0123456789'')
             \<lparr>error := Some (PyExc (RequestException ''refused''))\<rparr>,
           [TokenRequest ''0123456789'', TokenRequest ''0123456789''])
      \<and> \<not> res_success out \<and> res_count out = JInt 0
      \<and> res_text out =
          ''['' @ hide_refresh_token ''0123456789'' @ '']'' @ lit_signed_failed
          @ json_dumps_str ''refused'')"
proof -
  let ?cfg = "\<lparr>push_types = CList [], refresh_tokens = CList []\<rparr>"
  let ?tok = "''0123456789''"
  let ?data = "JObj [(''access_token'', JStr ''at''), (''refresh_token'', JStr ''rt2''),
                     (''user_name'', JStr ''138'')]"
  let ?sign = "JObj [(''success'', JBool True),
                (''result'', JObj [(''signInCount'', JInt 1),
                   (''signInLogs'', JArr [
                      JObj [(''status'', JStr ''normal''), (''isReward'', JBool False)],
                      JObj [(''status'', JStr ''miss''), (''isReward'', JBool False)]])])]"
  let ?netA = "\<lambda>w::world. if length w = 1 then PostRaises ''timed out''
           else if length w = 2 then Body ?data else Body ?sign"
  let ?netB = "\<lambda>w::world. if length w = 1 then PostRaises ''timed out'' else PostRaises ''refused''"
  let ?s2 = "(SignIn ?cfg ?tok)\<lparr>access_token := JStr ''at'', new_refresh_token := JStr ''rt2'',
                 phone := JStr ''138''\<rparr>"
  have sg: "sign_in (\<lambda>_. []) ?netA False ?s2 [TokenRequest ?tok, TokenRequest ?tok] =
      (Inr JNull, ?s2\<lparr>signin_count := JInt 1, signin_reward := Some lit_no_reward\<rparr>,
       [TokenRequest ?tok, TokenRequest ?tok, SignInRequest (JStr ''at'')])"
    by (simp add: sign_in_first read_sign_in_def find_current_day_def reward_of_def bindE_def
        py_index_def)
  have A: "\<exists>out s' w'. run (\<lambda>_. []) ?netA (SignIn ?cfg ?tok) [] = (Inr out, s', w') \<and> res_success out"
    using token_exchange_retries_once
      [where net = ?netA and w = "[]" and tok = ?tok and e = "RequestException ''timed out''"
         and data = ?data and a = "JStr ''at''" and r = "JStr ''rt2''" and p = "JStr ''138''"
         and R = "\<lambda>_. []" and cfg = ?cfg and e' = "RequestException ''refused''"]
      sg
    by simp blast
  have B: "\<exists>out.
      run (\<lambda>_. []) ?netB (SignIn ?cfg ?tok) []
        = (Inr out, (SignIn ?cfg ?tok)\<lparr>error := Some (PyExc (RequestException ''refused''))\<rparr>,
           [TokenRequest ?tok, TokenRequest ?tok])
      \<and> \<not> res_success out \<and> res_count out = JInt 0
      \<and> res_text out =
          ''['' @ hide_refresh_token ?tok @ '']'' @ lit_signed_failed @ json_dumps_str ''refused''"
    using token_exchange_retries_once
      [where net = ?netB and w = "[]" and tok = ?tok and e = "RequestException ''timed out''"
         and data = ?data and a = "JStr ''at''" and r = "JStr ''rt2''" and p = "JStr ''138''"
         and R = "\<lambda>_. []" and cfg = ?cfg and e' = "RequestException ''refused''"]
    by simp
  from A B show ?thesis by blast
qed

subsection \<open>The dispatcher\<close>

lemma push_loop_filter:
  "push_loop configured ps cfg content content_html title =
     map (\<lambda>p. Push p cfg content content_html title) (filter (\<lambda>p. p \<in> set configured) ps)"
  by (induction ps) simp_all

text \<open>
  C6. Let the configured names be the value of \<open>push_types\<close>, a single name or a list of
  names. \<open>push\<close> calls exactly those of the seven adapters \<open>dingtalk\<close>, \<open>serverchan\<close>,
  \<open>pushdeer\<close>, \<open>telegram\<close>, \<open>pushplus\<close>, \<open>smtp\<close>, \<open>feishu\<close> whose name is the lower-cased
  and then stripped form of a configured name; it calls them in this order, each once,
  all with the same configuration, content, HTML content and title. A configured name
  whose lower-cased, stripped form is no adapter's causes no call.
\<close>

theorem push_calls_enabled_adapters:
  "push lower strip cfg content content_html title =
     map (\<lambda>p. Push p cfg content content_html title)
       (filter
          (\<lambda>p. p \<in> (\<lambda>i. strip (lower i))
                     ` set (case push_types cfg of CStr s \<Rightarrow> [s] | CList l \<Rightarrow> l))
          [''dingtalk'', ''serverchan'', ''pushdeer'', ''telegram'', ''pushplus'', ''smtp'',
           ''feishu''])
   \<and> distinct (push lower strip cfg content content_html title)
   \<and> (\<forall>p. count_list (map adapter (push lower strip cfg content content_html title)) p =
          (if p \<in> set [''dingtalk'', ''serverchan'', ''pushdeer'', ''telegram'', ''pushplus'',
                         ''smtp'', ''feishu'']
              \<and> p \<in> (\<lambda>i. strip (lower i))
                       ` set (case push_types cfg of CStr s \<Rightarrow> [s] | CList l \<Rightarrow> l)
           then 1 else 0))"
  unfolding pushers_def [symmetric]
proof -
  let ?names = "case push_types cfg of CStr s \<Rightarrow> [s] | CList l \<Rightarrow> l"
  let ?enabled = "(\<lambda>i. strip (lower i)) ` set ?names"
  have conf: "set (configured_push_types lower strip cfg) = ?enabled"
    by (simp add: configured_push_types_def)
  have d: "distinct pushers" by (simp add: pushers_def)
  have eq: "push lower strip cfg content content_html title =
     map (\<lambda>p. Push p cfg content content_html title) (filter (\<lambda>p. p \<in> ?enabled) pushers)"
    by (simp add: push_def push_loop_filter conf)
  have names: "map adapter (push lower strip cfg content content_html title) =
      filter (\<lambda>p. p \<in> ?enabled) pushers"
    by (simp add: eq comp_def)
  have cnt: "count_list (filter P xs) p = (if p \<in> set xs \<and> P p then 1 else 0)"
    if "distinct xs" for P and xs :: "string list" and p
    using that by (induction xs) auto
  have dp: "distinct (push lower strip cfg content content_html title)"
    unfolding eq using d by (simp add: distinct_map inj_on_def)
  have counts: "\<forall>p. count_list (map adapter (push lower strip cfg content content_html title)) p =
          (if p \<in> set pushers \<and> p \<in> ?enabled then 1 else 0)"
    unfolding names using cnt [OF d] by blast
  from eq dp counts show
    "push lower strip cfg content content_html title =
       map (\<lambda>p. Push p cfg content content_html title) (filter (\<lambda>p. p \<in> ?enabled) pushers)
     \<and> distinct (push lower strip cfg content content_html title)
     \<and> (\<forall>p. count_list (map adapter (push lower strip cfg content content_html title)) p =
            (if p \<in> set pushers \<and> p \<in> ?enabled then 1 else 0))"
    by blast
qed

text \<open>
  The configured names \<open>" Telegram "\<close> and \<open>"unknown_channel"\<close>, with \<open>lower\<close> and
  \<open>strip\<close> given by the values Python's functions take on them: one call, of \<open>telegram\<close>.
\<close>

theorem push_calls_enabled_adapters_witness:
  "push (\<lambda>s. if s = '' Telegram '' then '' telegram '' else s)
     (\<lambda>s. if s = '' telegram '' then ''telegram'' else s)
     \<lparr>push_types = CList ['' Telegram '', ''unknown_channel''], refresh_tokens = CList []\<rparr>
     ''plain'' ''<b>html</b>'' (Some ''title'')
   = [Push ''telegram''
        \<lparr>push_types = CList ['' Telegram '', ''unknown_channel''], refresh_tokens = CList []\<rparr>
        ''plain'' ''<b>html</b>'' (Some ''title'')]"
  using push_calls_enabled_adapters
    [of "\<lambda>s. if s = '' Telegram '' then '' telegram '' else s"
      "\<lambda>s. if s = '' telegram '' then ''telegram'' else s"
      "\<lparr>push_types = CList ['' Telegram '', ''unknown_channel''], refresh_tokens = CList []\<rparr>"
      "''plain''" "''<b>html</b>''" "Some ''title''"]
  by simp

subsection \<open>The gift code\<close>

lemma read_reward_None_iff:
  "read_reward R data = Inr None \<longleftrightarrow>
     py_contains ''success'' data = Inr True
     \<and> (\<exists>success. getitem_str data ''success'' = Inr success \<and> \<not> py_truthy success)
     \<and> getitem_str data ''code'' = Inr (JStr ''30009'')"
  by (auto simp: read_reward_def bindE_def split: sum.splits)

lemma reward_code_requests:
  "snd (reward_code R net token code w) = w @ [RewardRequest token code]"
  by (simp add: reward_code_def post_def split: reply.splits)

lemma lit_reward_error_bytes:
  "lit_reward_error = utf8 [0x5151, 0x6362, 0x798F, 0x5229, 0x7801] @ CHR 0xE5 # CHR 0x8F # drop 17 lit_reward_error"
  by (simp add: lit_reward_error_def utf8_def utf8_char_def char_of_def bit_0)

lemma lit_reward_failed_bytes:
  "lit_reward_failed = utf8 [0x5151, 0x6362, 0x798F, 0x5229, 0x7801] @ CHR 0xE5 # CHR 0xA4 # drop 17 lit_reward_failed"
  by (simp add: lit_reward_failed_def utf8_def utf8_char_def char_of_def bit_0)

lemma reward_error_not_failed: "lit_reward_error @ x \<noteq> lit_reward_failed @ y"
proof
  assume "lit_reward_error @ x = lit_reward_failed @ y"
  then have "(utf8 [0x5151, 0x6362, 0x798F, 0x5229, 0x7801] @ CHR 0xE5 # CHR 0x8F # drop 17 lit_reward_error) @ x
      = (utf8 [0x5151, 0x6362, 0x798F, 0x5229, 0x7801] @ CHR 0xE5 # CHR 0xA4 # drop 17 lit_reward_failed) @ y"
    using lit_reward_error_bytes lit_reward_failed_bytes by metis
  then show False by simp
qed

text \<open>
  What \<open>reward_code\<close> does on the responses it handles: it returns \<^verbatim>\<open>None\<close> exactly when
  the response carries a success indicator that is not true and the code \<open>30009\<close>; it
  issues one request whatever happens, and when that request raises a
  \<^verbatim>\<open>RequestException\<close> the result is the request-error message; a response without the
  success indicator that carries a \<open>message\<close> yields the malformed-redemption message
  made from it, which is neither \<^verbatim>\<open>None\<close> nor any redemption-rejected message.
\<close>

lemma reward_code_results:
  "(fst (reward_code R net token code w) = Inr None \<longleftrightarrow>
      (\<exists>data success. net (w @ [RewardRequest token code]) = Body data
         \<and> py_contains ''success'' data = Inr True
         \<and> getitem_str data ''success'' = Inr success \<and> \<not> py_truthy success
         \<and> getitem_str data ''code'' = Inr (JStr ''30009'')))
   \<and> snd (reward_code R net token code w) = w @ [RewardRequest token code]
   \<and> (\<forall>m. net (w @ [RewardRequest token code]) = PostRaises m \<longrightarrow>
         fst (reward_code R net token code w) = Inr (Some lit_reward_request_error))
   \<and> (\<forall>data m. net (w @ [RewardRequest token code]) = Body data
         \<and> py_contains ''success'' data = Inr False
         \<and> getitem_str data ''message'' = Inr m \<longrightarrow>
         fst (reward_code R net token code w) = Inr (Some (lit_reward_error @ py_str R m))
         \<and> (\<forall>x. lit_reward_error @ py_str R m \<noteq> lit_reward_failed @ x))"
proof -
  have none: "fst (reward_code R net token code w) = Inr None \<longleftrightarrow>
      (\<exists>data success. net (w @ [RewardRequest token code]) = Body data
         \<and> py_contains ''success'' data = Inr True
         \<and> getitem_str data ''success'' = Inr success \<and> \<not> py_truthy success
         \<and> getitem_str data ''code'' = Inr (JStr ''30009''))"
  proof (cases "net (w @ [RewardRequest token code])")
    case (Body data)
    then show ?thesis
      using read_reward_None_iff [of R data] by (auto simp: reward_code_def post_def)
  qed (simp_all add: reward_code_def post_def)
  have transport: "\<forall>m. net (w @ [RewardRequest token code]) = PostRaises m \<longrightarrow>
         fst (reward_code R net token code w) = Inr (Some lit_reward_request_error)"
    by (simp add: reward_code_def post_def)
  have malformed: "\<forall>data m. net (w @ [RewardRequest token code]) = Body data
         \<and> py_contains ''success'' data = Inr False
         \<and> getitem_str data ''message'' = Inr m \<longrightarrow>
         fst (reward_code R net token code w) = Inr (Some (lit_reward_error @ py_str R m))
         \<and> (\<forall>x. lit_reward_error @ py_str R m \<noteq> lit_reward_failed @ x)"
    using reward_error_not_failed
    by (simp add: reward_code_def post_def read_reward_def bindE_def)
  from none reward_code_requests [of R net token code w] transport malformed
  show ?thesis by blast
qed

text \<open>
  C9. The specification asks that a response without the success indicator yields the
  malformed-redemption message. The branch that returns this message formats it from
  the response's \<open>message\<close> without looking whether there is one: on the empty object,
  which has neither, \<open>reward_code\<close> raises a \<^verbatim>\<open>KeyError\<close> and returns no message. Nothing
  catches it, so the loop over the accounts stops with it: here for an account whose
  exchange and sign-in both succeeded.
\<close>

theorem reward_code_raises_without_message:
  "py_contains ''success'' (JObj []) = Inr False
   \<and> fst (reward_code (\<lambda>_. []) (\<lambda>_. Body (JObj [])) (JStr ''at'') gift_code [])
       = Inl (KeyError (JStr ''message''))
   \<and> fst (main_step (\<lambda>_. [])
        (\<lambda>w. if length w = 1 then
             Body (JObj [(''access_token'', JStr ''at''), (''refresh_token'', JStr ''rt2''),
                        (''user_name'', JStr ''138'')])
           else if length w = 2 then
             Body (JObj [(''success'', JBool True),
                 (''result'', JObj [(''signInCount'', JInt 5),
                    (''signInLogs'', JArr [
                       JObj [(''status'', JStr ''normal''), (''isReward'', JBool False)],
                       JObj [(''status'', JStr ''miss''), (''isReward'', JBool False)]])])])
           else Body (JObj []))
        \<lparr>push_types = CList [], refresh_tokens = CList []\<rparr> ''0123456789'' ([], [], []))
       = Inl (KeyError (JStr ''message''))"
  by (simp add: reward_code_def post_def read_reward_def bindE_def main_step_def run_def
      get_access_token_first sign_in_first SignIn_def check_code_def read_fields_def
      read_sign_in_def find_current_day_def reward_of_def py_index_def Let_def)

subsection \<open>The success flag\<close>

text \<open>
  C10. In the outcome of a run the success flag is the truth value of the recorded
  count: for an integer count, true exactly when the count is not zero. So when the
  exchange and the sign-in both went through, leaving no error, and the provider reported
  a count of 0, the outcome has success false and both texts are the failure texts,
  serialising the absent error as the string \<open>None\<close>.
\<close>

theorem success_iff_count_nonzero:
  assumes "run R net (SignIn cfg tok) w = (Inr out, s', w')"
  shows "res_count out = signin_count s'
    \<and> res_success out = py_truthy (res_count out)
    \<and> (\<forall>n. res_count out = JInt n \<longrightarrow> (res_success out \<longleftrightarrow> n \<noteq> 0))
    \<and> (res_count out = JInt 0 \<and> error s' = None \<longrightarrow>
         \<not> res_success out
         \<and> res_text out =
             ''['' @ py_str R (res_user out) @ '']'' @ lit_signed_failed @ json_dumps_str ''None''
         \<and> res_text_html out =
             ''<code>'' @ py_str R (res_user out) @ ''</code>'' @ lit_signed_failed
             @ ''<code>'' @ json_dumps_str ''None'' @ ''</code>'')"
  unfolding run_outcome [OF assms]
  by (simp add: generate_result_def Let_def str_error_def)

theorem success_iff_count_nonzero_witness:
  "\<exists>out s' w'.
     run (\<lambda>_. [])
       (\<lambda>w. if length w = 1 then
            Body (JObj [(''access_token'', JStr ''at''), (''refresh_token'', JStr ''rt2''),
                        (''user_name'', JStr ''138'')])
          else
            Body (JObj [(''success'', JBool True),
               (''result'', JObj [(''signInCount'', JInt 0),
                  (''signInLogs'', JArr [
                     JObj [(''status'', JStr ''normal''), (''isReward'', JBool False)],
                     JObj [(''status'', JStr ''miss''), (''isReward'', JBool False)]])])]))
       (SignIn \<lparr>push_types = CList [], refresh_tokens = CList []\<rparr> ''0123456789'') []
     = (Inr out, s', w')
     \<and> error s' = None \<and> signin_reward s' = Some lit_no_reward
     \<and> res_count out = JInt 0 \<and> \<not> res_success out
     \<and> res_text out = ''[138]'' @ lit_signed_failed @ [CHR 0x22] @ ''None'' @ [CHR 0x22]"
proof -
  let ?cfg = "\<lparr>push_types = CList [], refresh_tokens = CList []\<rparr>"
  let ?net = "\<lambda>w::world. if length w = 1 then
            Body (JObj [(''access_token'', JStr ''at''), (''refresh_token'', JStr ''rt2''),
                        (''user_name'', JStr ''138'')])
          else
            Body (JObj [(''success'', JBool True),
               (''result'', JObj [(''signInCount'', JInt 0),
                  (''signInLogs'', JArr [
                     JObj [(''status'', JStr ''normal''), (''isReward'', JBool False)],
                     JObj [(''status'', JStr ''miss''), (''isReward'', JBool False)]])])])"
  let ?s = "(SignIn ?cfg ''0123456789'')\<lparr>access_token := JStr ''at'',
       new_refresh_token := JStr ''rt2'', phone := JStr ''138'', signin_count := JInt 0,
       signin_reward := Some lit_no_reward\<rparr>"
  let ?w = "[TokenRequest ''0123456789'', SignInRequest (JStr ''at'')]"
  have r: "run (\<lambda>_. []) ?net (SignIn ?cfg ''0123456789'') [] =
      (Inr (generate_result (\<lambda>_. []) ?s), ?s, ?w)"
    by (simp add: run_def get_access_token_first sign_in_first SignIn_def check_code_def
        read_fields_def read_sign_in_def find_current_day_def reward_of_def bindE_def
        py_index_def)
  have e: "error ?s = None" by (simp add: SignIn_def)
  have c: "res_count (generate_result (\<lambda>_. []) ?s) = JInt 0"
    by (simp add: generate_result_def Let_def)
  have u: "res_user (generate_result (\<lambda>_. []) ?s) = JStr ''138''"
    by (simp add: generate_result_def Let_def)
  show ?thesis
    using success_iff_count_nonzero [OF r] r e c u
    by (simp add: json_dumps_str_def json_escape_def)
qed

subsection \<open>The loop over the accounts\<close>

text \<open>
  One account whose session returns an outcome, \<open>s\<close> being the session object
  afterwards. The body of the loop issues the redemption request, with the access token
  of \<open>s\<close>, exactly when that access token is true in Python's sense; the success of
  the sign-in plays no part. When the redemption returns, its message, or the
  already-redeemed text for \<^verbatim>\<open>None\<close>, is appended to the rewards under the phone of \<open>s\<close> in
  brackets; that phone is the outcome's user when it is true in Python's sense.
\<close>

lemma main_step_redemption:
  assumes "run R net (SignIn cfg user) w = (Inr out, s, w1)"
  shows "snd (main_step R net cfg user (results, rewards, w)) =
       (if py_truthy (access_token s) then w1 @ [RewardRequest (access_token s) gift_code]
        else w1)
    \<and> (\<not> py_truthy (access_token s) \<longrightarrow>
         main_step R net cfg user (results, rewards, w) = (Inr (results @ [out], rewards), w1))
    \<and> (\<forall>reward w2.
         py_truthy (access_token s)
         \<and> reward_code R net (access_token s) gift_code w1 = (Inr reward, w2) \<longrightarrow>
         main_step R net cfg user (results, rewards, w) =
           (Inr (results @ [out],
                 rewards @ [''['' @ py_str R (phone s) @ ''] ''
                    @ (case reward of None \<Rightarrow> lit_already_redeemed | Some r \<Rightarrow> r)]),
            w2))
    \<and> (py_truthy (phone s) \<longrightarrow> res_user out = phone s)"
proof -
  have out: "out = generate_result R s" using assms by (rule run_outcome)
  have user: "py_truthy (phone s) \<longrightarrow> res_user out = phone s"
    by (simp add: out generate_result_def Let_def)
  have requests: "snd (main_step R net cfg user (results, rewards, w)) =
       (if py_truthy (access_token s) then w1 @ [RewardRequest (access_token s) gift_code]
        else w1)"
    using assms reward_code_requests [of R net "access_token s" gift_code w1]
    by (auto simp: main_step_def Let_def split: prod.splits sum.splits)
  have skipped: "\<not> py_truthy (access_token s) \<longrightarrow>
         main_step R net cfg user (results, rewards, w) = (Inr (results @ [out], rewards), w1)"
    using assms by (simp add: main_step_def)
  have recorded: "\<forall>reward w2.
         py_truthy (access_token s)
         \<and> reward_code R net (access_token s) gift_code w1 = (Inr reward, w2) \<longrightarrow>
         main_step R net cfg user (results, rewards, w) =
           (Inr (results @ [out],
                 rewards @ [''['' @ py_str R (phone s) @ ''] ''
                    @ (case reward of None \<Rightarrow> lit_already_redeemed | Some r \<Rightarrow> r)]),
            w2)"
    using assms by (simp add: main_step_def Let_def)
  from requests skipped recorded user show ?thesis by blast
qed

text \<open>
  C8. The specification asks that the message of a redemption is recorded under the
  account identifier, which is the phone number if known and the masked refresh token
  otherwise; \<open>generate_result\<close> computes it so. The loop of \<open>main\<close> writes the phone alone.
  A response to the exchange that carries an access token and nothing else makes the
  exchange fail after it has stored the access token: the outcome's user is the masked
  token, the redemption is attempted all the same, and its message is recorded under
  \<open>None\<close>.
\<close>

theorem reward_recorded_under_None:
  "main_step (\<lambda>_. [])
     (\<lambda>w. if length w = 1 then Body (JObj [(''access_token'', JStr ''at'')])
        else Body (JObj [(''success'', JBool True),
                         (''result'', JObj [(''message'', JStr ''500G'')])]))
     \<lparr>push_types = CList [], refresh_tokens = CList []\<rparr> ''0123456789'' ([], [], [])
   = (Inr ([generate_result (\<lambda>_. [])
              ((SignIn \<lparr>push_types = CList [], refresh_tokens = CList []\<rparr> ''0123456789'')
                 \<lparr>access_token := JStr ''at'',
                  error := Some (PyJson (JStr lit_missing_fields))\<rparr>)],
           [''[None] '' @ lit_reward_ok @ ''500G'']),
      [TokenRequest ''0123456789'', RewardRequest (JStr ''at'') gift_code])
   \<and> res_user (generate_result (\<lambda>_. [])
        ((SignIn \<lparr>push_types = CList [], refresh_tokens = CList []\<rparr> ''0123456789'')
           \<lparr>access_token := JStr ''at'',
            error := Some (PyJson (JStr lit_missing_fields))\<rparr>))
       = JStr ''0123**6789''
   \<and> \<not> res_success (generate_result (\<lambda>_. [])
        ((SignIn \<lparr>push_types = CList [], refresh_tokens = CList []\<rparr> ''0123456789'')
           \<lparr>access_token := JStr ''at'',
            error := Some (PyJson (JStr lit_missing_fields))\<rparr>))"
proof -
  let ?cfg = "\<lparr>push_types = CList [], refresh_tokens = CList []\<rparr>"
  let ?net = "\<lambda>w::world. if length w = 1 then Body (JObj [(''access_token'', JStr ''at'')])
        else Body (JObj [(''success'', JBool True),
                         (''result'', JObj [(''message'', JStr ''500G'')])])"
  let ?s = "(SignIn ?cfg ''0123456789'')\<lparr>access_token := JStr ''at'',
       error := Some (PyJson (JStr lit_missing_fields))\<rparr>"
  have r: "run (\<lambda>_. []) ?net (SignIn ?cfg ''0123456789'') [] =
      (Inr (generate_result (\<lambda>_. []) ?s), ?s, [TokenRequest ''0123456789''])"
    by (simp add: run_def get_access_token_first SignIn_def check_code_def read_fields_def
        missing_fields_def)
  have c: "reward_code (\<lambda>_. []) ?net (JStr ''at'') gift_code [TokenRequest ''0123456789''] =
      (Inr (Some (lit_reward_ok @ ''500G'')),
       [TokenRequest ''0123456789'', RewardRequest (JStr ''at'') gift_code])"
    by (simp add: reward_code_def post_def read_reward_def bindE_def)
  have step: "main_step (\<lambda>_. []) ?net ?cfg ''0123456789'' ([], [], []) =
      (Inr ([generate_result (\<lambda>_. []) ?s], [''[None] '' @ lit_reward_ok @ ''500G'']),
       [TokenRequest ''0123456789'', RewardRequest (JStr ''at'') gift_code])"
    using r c by (simp add: main_step_def SignIn_def)
  have user: "res_user (generate_result (\<lambda>_. []) ?s) = JStr ''0123**6789''"
    by (simp add: generate_result_def Let_def SignIn_def hide_refresh_token_eq)
  have failed: "\<not> res_success (generate_result (\<lambda>_. []) ?s)"
    by (simp add: generate_result_def Let_def SignIn_def)
  from step user failed show ?thesis by blast
qed

subsection \<open>The combined report\<close>

text \<open>A session never changes its refresh token; the sign-in leaves the rotated one alone.\<close>

lemma check_code_refresh_token:
  "refresh_token (snd (check_code R data s)) = refresh_token s"
  by (auto simp: check_code_def read_fields_def missing_fields_def Let_def
      split: sum.splits exn.splits)

lemma read_sign_in_keeps:
  "refresh_token (snd (read_sign_in R data s)) = refresh_token s
   \<and> new_refresh_token (snd (read_sign_in R data s)) = new_refresh_token s"
  by (auto simp: read_sign_in_def split: sum.splits prod.splits)

lemma get_access_token_retry_refresh_token:
  "refresh_token (fst (snd (get_access_token R net True s w))) = refresh_token s"
  by (auto simp: get_access_token_retry check_code_refresh_token
      split: sum.splits exn.splits)

lemma get_access_token_refresh_token:
  "refresh_token (fst (snd (get_access_token R net retry s w))) = refresh_token s"
proof (cases retry)
  case True
  then show ?thesis by (simp add: get_access_token_retry_refresh_token)
next
  case False
  then show ?thesis
    by (auto simp: get_access_token_first check_code_refresh_token
        get_access_token_retry_refresh_token split: sum.splits exn.splits)
qed

lemma sign_in_retry_keeps:
  "refresh_token (fst (snd (sign_in R net True s w))) = refresh_token s
   \<and> new_refresh_token (fst (snd (sign_in R net True s w))) = new_refresh_token s"
  by (auto simp: sign_in_retry read_sign_in_keeps split: sum.splits exn.splits)

lemma sign_in_keeps:
  "refresh_token (fst (snd (sign_in R net retry s w))) = refresh_token s
   \<and> new_refresh_token (fst (snd (sign_in R net retry s w))) = new_refresh_token s"
proof (cases retry)
  case True
  then show ?thesis by (simp add: sign_in_retry_keeps)
next
  case False
  then show ?thesis
    by (auto simp: sign_in_first read_sign_in_keeps sign_in_retry_keeps
        split: sum.splits exn.splits)
qed

lemma run_refresh_token:
  assumes "run R net s w = (r, s', w')"
  shows "refresh_token s' = refresh_token s"
proof -
  obtain r1 s1 w1 where g: "get_access_token R net False s w = (r1, s1, w1)"
    by (cases "get_access_token R net False s w") auto
  have s1: "refresh_token s1 = refresh_token s"
    using get_access_token_refresh_token [of R net False s w] g by simp
  show ?thesis
  proof (cases "r1 = Inr True")
    case True
    obtain r2 s2 w2 where sg: "sign_in R net False s1 w1 = (r2, s2, w2)"
      by (cases "sign_in R net False s1 w1") auto
    have "refresh_token s2 = refresh_token s1"
      using sign_in_keeps [of R net False s1 w1] sg by simp
    with assms g sg True s1 show ?thesis
      by (auto simp: run_def split: sum.splits)
  next
    case False
    with assms g s1 show ?thesis
      by (auto simp: run_def split: sum.splits if_splits)
  qed
qed

lemma main_step_result:
  assumes "main_step R net cfg user (results, rewards, w) = (Inr (results', rewards'), w')"
  shows "\<exists>out s wa wb. run R net (SignIn cfg user) wa = (Inr out, s, wb)
           \<and> results' = results @ [out]"
  using assms
  by (auto simp: main_step_def Let_def split: prod.splits sum.splits if_splits)

lemma main_loop_results:
  assumes "main_loop R net cfg users results rewards w = (Inr (results', rewards'), w')"
  shows "\<exists>outs. results' = results @ outs \<and> length outs = length users
     \<and> (\<forall>i<length users. \<exists>s wa wb.
           run R net (SignIn cfg (users ! i)) wa = (Inr (outs ! i), s, wb))"
  using assms
proof (induction users arbitrary: results rewards w)
  case Nil
  then show ?case by simp
next
  case (Cons user users)
  from Cons.prems obtain results1 rewards1 w1 where
    step: "main_step R net cfg user (results, rewards, w) = (Inr (results1, rewards1), w1)"
    and rest: "main_loop R net cfg users results1 rewards1 w1 = (Inr (results', rewards'), w')"
    by (auto split: prod.splits sum.splits)
  from main_step_result [OF step] obtain out s wa wb where
    out: "run R net (SignIn cfg user) wa = (Inr out, s, wb)" "results1 = results @ [out]"
    by blast
  from Cons.IH [OF rest] obtain outs where
    outs: "results' = results1 @ outs" "length outs = length users"
      "\<forall>i<length users. \<exists>s wa wb.
           run R net (SignIn cfg (users ! i)) wa = (Inr (outs ! i), s, wb)"
    by blast
  have "\<forall>i<length (user # users). \<exists>s wa wb.
           run R net (SignIn cfg ((user # users) ! i)) wa = (Inr ((out # outs) ! i), s, wb)"
  proof (intro allI impI)
    fix i assume "i < length (user # users)"
    then show "\<exists>s wa wb.
           run R net (SignIn cfg ((user # users) ! i)) wa = (Inr ((out # outs) ! i), s, wb)"
      using out(1) outs(3) by (cases i) auto
  qed
  with out(2) outs(1,2) show ?case
    by (intro exI [of _ "out # outs"]) simp
qed

lemma main_returned_report:
  assumes "main lower strip R net cfg w = (Inr rep, w')"
  shows "rep_text rep = py_join [CHR 0x0A, CHR 0x0A] (map res_text (rep_results rep))
    \<and> rep_text_html rep = py_join [CHR 0x0A, CHR 0x0A] (map res_text_html (rep_results rep))
    \<and> length (rep_results rep) =
        length (case refresh_tokens cfg of CStr t \<Rightarrow> [t] | CList l \<Rightarrow> l)
    \<and> length (rep_new_users rep) =
        length (case refresh_tokens cfg of CStr t \<Rightarrow> [t] | CList l \<Rightarrow> l)
    \<and> (\<forall>i < length (case refresh_tokens cfg of CStr t \<Rightarrow> [t] | CList l \<Rightarrow> l).
         \<exists>s wa wb.
           run R net (SignIn cfg ((case refresh_tokens cfg of CStr t \<Rightarrow> [t] | CList l \<Rightarrow> l) ! i)) wa
             = (Inr (rep_results rep ! i), s, wb)
           \<and> rep_new_users rep ! i =
               (if py_truthy (new_refresh_token s) then new_refresh_token s
                else JStr ((case refresh_tokens cfg of CStr t \<Rightarrow> [t] | CList l \<Rightarrow> l) ! i)))"
proof -
  let ?users = "case refresh_tokens cfg of CStr t \<Rightarrow> [t] | CList l \<Rightarrow> l"
  from assms obtain results rewards where
    loop: "main_loop R net cfg ?users [] [] w = (Inr (results, rewards), w')"
    and rep: "rep_results rep = results"
      "rep_text rep = py_join [CHR 0x0A, CHR 0x0A] (map res_text results)"
      "rep_text_html rep = py_join [CHR 0x0A, CHR 0x0A] (map res_text_html results)"
      "rep_new_users rep = map res_refresh_token results"
    by (auto simp: main_def Let_def split: prod.splits sum.splits)
  from main_loop_results [OF loop] have len: "length results = length ?users"
    and runs: "\<forall>i<length ?users. \<exists>s wa wb.
           run R net (SignIn cfg (?users ! i)) wa = (Inr (results ! i), s, wb)"
    by auto
  have "\<exists>s wa wb.
           run R net (SignIn cfg (?users ! i)) wa = (Inr (rep_results rep ! i), s, wb)
           \<and> rep_new_users rep ! i =
               (if py_truthy (new_refresh_token s) then new_refresh_token s
                else JStr (?users ! i))"
    if i: "i < length ?users" for i
  proof -
    from runs i obtain s wa wb where
      r: "run R net (SignIn cfg (?users ! i)) wa = (Inr (results ! i), s, wb)"
      by blast
    have tok: "refresh_token s = ?users ! i"
      using run_refresh_token [OF r] by (simp add: SignIn_def)
    have "results ! i = generate_result R s" using r by (rule run_outcome)
    then have "res_refresh_token (results ! i) =
        (if py_truthy (new_refresh_token s) then new_refresh_token s else JStr (?users ! i))"
      by (simp add: generate_result_def Let_def tok)
    with r rep(1,4) i len show ?thesis by auto
  qed
  with rep len show ?thesis by simp
qed


lemma main_step_raises:
  assumes "main_step R net cfg user (results, rewards, w) = (Inl e, w')"
  shows "\<exists>wa s wb.
      run R net (SignIn cfg user) wa = (Inl e, s, wb)
      \<or> (\<exists>out wc. run R net (SignIn cfg user) wa = (Inr out, s, wb)
            \<and> py_truthy (access_token s)
            \<and> reward_code R net (access_token s) gift_code wb = (Inl e, wc))"
proof -
  obtain r s wb where run: "run R net (SignIn cfg user) w = (r, s, wb)"
    by (cases "run R net (SignIn cfg user) w") auto
  show ?thesis
  proof (cases r)
    case (Inl e')
    with assms run have "e' = e" by (simp add: main_step_def)
    with Inl run show ?thesis by blast
  next
    case (Inr out)
    with assms run have t: "py_truthy (access_token s)"
      by (auto simp: main_step_def split: if_splits)
    obtain r2 wc where rc: "reward_code R net (access_token s) gift_code wb = (r2, wc)"
      by (cases "reward_code R net (access_token s) gift_code wb") auto
    with assms run Inr t have "r2 = Inl e"
      by (cases r2) (simp_all add: main_step_def Let_def)
    with run Inr t rc show ?thesis by blast
  qed
qed

lemma main_loop_raises:
  assumes "main_loop R net cfg users results rewards w = (Inl e, w')"
  shows "\<exists>user \<in> set users. \<exists>wa s wb.
      run R net (SignIn cfg user) wa = (Inl e, s, wb)
      \<or> (\<exists>out wc. run R net (SignIn cfg user) wa = (Inr out, s, wb)
            \<and> py_truthy (access_token s)
            \<and> reward_code R net (access_token s) gift_code wb = (Inl e, wc))"
  using assms
proof (induction users arbitrary: results rewards w)
  case Nil
  then show ?case by simp
next
  case (Cons user users)
  obtain r w1 where step: "main_step R net cfg user (results, rewards, w) = (r, w1)"
    by (cases "main_step R net cfg user (results, rewards, w)") auto
  show ?case
  proof (cases r)
    case (Inl e')
    with Cons.prems step have "e' = e" by simp
    with Inl step main_step_raises [of R net cfg user results rewards w e w1]
    show ?thesis by auto
  next
    case (Inr pair)
    obtain results1 rewards1 where pair: "pair = (results1, rewards1)" by (cases pair)
    with Cons.prems step Inr
    have "main_loop R net cfg users results1 rewards1 w1 = (Inl e, w')" by simp
    from Cons.IH [OF this] show ?thesis by auto
  qed
qed

text \<open>
  \<open>main\<close> raises only when the session of an account, or its redemption, raises, and
  then raises that exception.
\<close>

lemma main_raises:
  assumes "main lower strip R net cfg w = (Inl e, w')"
  shows "\<exists>user \<in> set (case refresh_tokens cfg of CStr t \<Rightarrow> [t] | CList l \<Rightarrow> l).
     \<exists>wa s wb.
       run R net (SignIn cfg user) wa = (Inl e, s, wb)
       \<or> (\<exists>out wc. run R net (SignIn cfg user) wa = (Inr out, s, wb)
             \<and> py_truthy (access_token s)
             \<and> reward_code R net (access_token s) gift_code wb = (Inl e, wc))"
proof -
  from assms have
    "main_loop R net cfg (case refresh_tokens cfg of CStr t \<Rightarrow> [t] | CList l \<Rightarrow> l) [] [] w
       = (Inl e, w')"
    by (auto simp: main_def Let_def split: prod.splits sum.splits)
  then show ?thesis by (rule main_loop_raises)
qed

text \<open>
  C7. The specification asks that \<open>main\<close> produces, for every list of accounts, the combined
  report and one refresh token per account. When \<open>main\<close> gets through the accounts it
  does (\<open>main_returned_report\<close>), but \<open>run\<close> is called with nothing around it, so a
  session that raises ends \<open>main\<close>: no report and no list of refresh tokens. Here the
  first of two accounts signs in and has its refresh token rotated, and the sign-in log
  of the second has no entry with status \<open>miss\<close>.
\<close>

theorem main_raises_when_a_session_raises:
  "fst (main (\<lambda>s. s) (\<lambda>s. s) (\<lambda>_. [])
      (\<lambda>w. if length w = 1 then
           Body (JObj [(''access_token'', JStr ''at''), (''refresh_token'', JStr ''rt2''),
                        (''user_name'', JStr ''138'')])
         else if length w = 2 then
           Body (JObj [(''success'', JBool True),
               (''result'', JObj [(''signInCount'', JInt 5),
                  (''signInLogs'', JArr [
                     JObj [(''status'', JStr ''normal''), (''isReward'', JBool False)],
                     JObj [(''status'', JStr ''miss''), (''isReward'', JBool False)]])])])
         else if length w = 3 then
           Body (JObj [(''success'', JBool False), (''code'', JStr ''30009''),
                       (''message'', JStr ''used'')])
         else if length w = 4 then
           Body (JObj [(''access_token'', JStr ''at3''), (''refresh_token'', JStr ''rt4''),
                       (''user_name'', JStr ''139'')])
         else
           Body (JObj [(''success'', JBool True),
              (''result'', JObj [(''signInCount'', JInt 2),
                 (''signInLogs'', JArr [
                    JObj [(''status'', JStr ''normal''), (''isReward'', JBool False)],
                    JObj [(''status'', JStr ''normal''), (''isReward'', JBool False)]])])]))
      \<lparr>push_types = CList [''telegram''],
       refresh_tokens = CList [''aaaa1111bbbb'', ''cccc2222dddd'']\<rparr> [])
   = Inl TypeError"
  by (simp add: main_def main_step_def run_def get_access_token_first sign_in_first
      SignIn_def check_code_def read_fields_def read_sign_in_def find_current_day_def
      reward_of_def bindE_def py_index_def reward_code_def post_def read_reward_def Let_def)

end
